theory Spec2Isabelle
  imports Complex_Main
begin

section \<open>Data model (server/src/types/payment.ts)\<close>

text \<open>
  The gateway's status enumeration, a closed union of six string literals in the
  source.
\<close>

datatype PaymentStatus =
    authorization_required
  | authorizing
  | authorized
  | failed
  | executed
  | settled

text \<open>
  A JavaScript \<^verbatim>\<open>number\<close>: an IEEE-754 binary64 value. A finite value is held as the
  rational it denotes (the two zeros are not told apart).
\<close>

datatype number = Fin rat | PosInfinity | NegInfinity | NaN

text \<open>
  \<^verbatim>\<open>TrueLayerPaymentResponse\<close>. The fields \<^verbatim>\<open>payment_method\<close> and \<^verbatim>\<open>user\<close> have type
  \<^verbatim>\<open>any\<close> and are kept as opaque JSON text. \<^verbatim>\<open>failure_reason\<close> is read by the
  refresh route although the interface does not declare it.
\<close>

record TrueLayerPaymentResponse =
  tl_id :: string
  amount_in_minor :: number
  tl_currency :: string
  payment_method :: string
  user :: string
  tl_status :: PaymentStatus
  created_at :: string
  resource_token :: "string option"
  hosted_payments_page_url :: "string option"
  failure_reason :: "string option"

text \<open>
  \<^verbatim>\<open>Payment\<close>, the object stored in the table. \<^verbatim>\<open>statusMessage\<close> and \<^verbatim>\<open>canRetry\<close>
  are the two properties the refresh route adds to the object it answers with.
\<close>

record Payment =
  userId :: string
  paymentId :: string
  amount :: number
  currency :: string
  status :: PaymentStatus
  reference :: string
  createdAt :: string
  updatedAt :: string
  paymentLink :: "string option"
  trueLayerData :: "TrueLayerPaymentResponse option"
  statusMessage :: "string option"
  canRetry :: "bool option"

text \<open>
  \<^verbatim>\<open>CreatePaymentRequest\<close>, the body of a creation request. A field the body lacks
  is held as the falsy value of its type (\<open>''''\<close>, \<open>NaN\<close>): the route's validation
  tests \<^verbatim>\<open>!field\<close>, which cannot tell the two apart.
\<close>

record CreatePaymentRequest =
  req_amount :: number
  req_currency :: string
  req_reference :: string

section \<open>JavaScript values\<close>

text \<open>A thrown \<^verbatim>\<open>Error\<close>, with its message.\<close>

datatype error = Error string

text \<open>Truthiness of a string (\<^verbatim>\<open>!s\<close> is true for the empty string) and of a number
  (\<^verbatim>\<open>!n\<close> is true for zero and \<open>NaN\<close>).\<close>

definition truthy :: "string \<Rightarrow> bool" where
  "truthy s = (s \<noteq> [])"

fun truthy_number :: "number \<Rightarrow> bool" where
  "truthy_number (Fin r) = (r \<noteq> 0)"
| "truthy_number NaN = False"
| "truthy_number PosInfinity = True"
| "truthy_number NegInfinity = True"

text \<open>The comparison \<^verbatim>\<open>n <= 0\<close>; every comparison with \<open>NaN\<close> is false.\<close>

fun le_zero :: "number \<Rightarrow> bool" where
  "le_zero (Fin r) = (r \<le> 0)"
| "le_zero NegInfinity = True"
| "le_zero PosInfinity = False"
| "le_zero NaN = False"

subsection \<open>Binary64 multiplication\<close>

text \<open>\<open>pow2 e\<close> is \<open>2\<^sup>e\<close> for an integer exponent of either sign.\<close>

definition pow2 :: "int \<Rightarrow> rat" where
  "pow2 e = (if 0 \<le> e then 2 ^ nat e else 1 / 2 ^ nat (- e))"

text \<open>The number of binary digits of a natural number.\<close>

fun bitlen :: "nat \<Rightarrow> nat" where
  "bitlen n = (if n = 0 then 0 else Suc (bitlen (n div 2)))"

declare bitlen.simps [simp del]

text \<open>
  For \<open>a > 0\<close>, the exponent \<open>e\<close> with \<open>2\<^sup>e \<le> a < 2\<^sup>e\<^sup>+\<^sup>1\<close>: one less than the bit length
  of \<open>\<lfloor>a\<rfloor>\<close> when \<open>1 \<le> a\<close>, and otherwise the negated bit length of \<open>\<lceil>1 / a\<rceil> - 1\<close>.
\<close>

definition floor_log2 :: "rat \<Rightarrow> int" where
  "floor_log2 a =
     (if 1 \<le> a then int (bitlen (nat \<lfloor>a\<rfloor>)) - 1
      else - int (bitlen (nat (\<lceil>1 / a\<rceil> - 1))))"

text \<open>Rounding to the nearest integer, a tie going to the even one.\<close>

definition round_half_even :: "rat \<Rightarrow> int" where
  "round_half_even q =
     (let f = \<lfloor>q\<rfloor>; d = q - of_int f
      in if d < 1 / 2 then f
         else if 1 / 2 < d then f + 1
         else if even f then f else f + 1)"

text \<open>
  The binary64 value nearest to an exact result \<open>x\<close> (round to nearest, ties to even):
  53 significant bits, the unit in the last place never below \<open>2\<^sup>-\<^sup>1\<^sup>0\<^sup>7\<^sup>4\<close> (the
  subnormal range), overflow to an infinity from \<open>2\<^sup>1\<^sup>0\<^sup>2\<^sup>4\<close> on.
\<close>

definition round_double :: "rat \<Rightarrow> number" where
  "round_double x =
     (if x = 0 then Fin 0
      else let a = \<bar>x\<bar>;
               e = max (floor_log2 a) (- 1022);
               u = pow2 (e - 52);
               r = of_int (round_half_even (a / u)) * u
           in if pow2 1024 \<le> r then (if 0 < x then PosInfinity else NegInfinity)
              else Fin (if 0 < x then r else - r))"

text \<open>The operator \<^verbatim>\<open>*\<close> on numbers.\<close>

fun times_number :: "number \<Rightarrow> number \<Rightarrow> number" where
  "times_number (Fin a) (Fin b) = round_double (a * b)"
| "times_number NaN _ = NaN"
| "times_number _ NaN = NaN"
| "times_number PosInfinity (Fin b) =
     (if b = 0 then NaN else if 0 < b then PosInfinity else NegInfinity)"
| "times_number NegInfinity (Fin b) =
     (if b = 0 then NaN else if 0 < b then NegInfinity else PosInfinity)"
| "times_number (Fin a) PosInfinity =
     (if a = 0 then NaN else if 0 < a then PosInfinity else NegInfinity)"
| "times_number (Fin a) NegInfinity =
     (if a = 0 then NaN else if 0 < a then NegInfinity else PosInfinity)"
| "times_number PosInfinity PosInfinity = PosInfinity"
| "times_number PosInfinity NegInfinity = NegInfinity"
| "times_number NegInfinity PosInfinity = NegInfinity"
| "times_number NegInfinity NegInfinity = PosInfinity"

subsection \<open>Strings\<close>

text \<open>
  \<^verbatim>\<open>String.prototype.toUpperCase\<close> on the ASCII letters; every other byte is left as
  it is (currency codes and HTTP methods are ASCII).
\<close>

definition toUpperCase_char :: "char \<Rightarrow> char" where
  "toUpperCase_char c =
     (let n = (of_char c :: nat)
      in if 97 \<le> n \<and> n \<le> 122 then char_of (n - 32) else c)"

definition toUpperCase :: "string \<Rightarrow> string" where
  "toUpperCase s = map toUpperCase_char s"

text \<open>
  \<^verbatim>\<open>encodeURIComponent\<close> on a string held as UTF-8 bytes: the unreserved characters
  \<^verbatim>\<open>A-Z a-z 0-9 - _ . ! ~ * ' ( )\<close> are kept, every other byte becomes \<^verbatim>\<open>%XX\<close>.
\<close>

definition unreserved :: "char \<Rightarrow> bool" where
  "unreserved c =
     (let n = (of_char c :: nat)
      in (65 \<le> n \<and> n \<le> 90) \<or> (97 \<le> n \<and> n \<le> 122) \<or> (48 \<le> n \<and> n \<le> 57)
         \<or> c \<in> set [CHR ''-'', CHR ''_'', CHR ''.'', CHR ''!'', CHR ''~'', CHR ''*'',
                      CHR 0x27, CHR ''('', CHR '')''])"

definition hex_digit :: "nat \<Rightarrow> char" where
  "hex_digit n = ''0123456789ABCDEF'' ! (n mod 16)"

definition percent_encode :: "char \<Rightarrow> string" where
  "percent_encode c =
     (let n = (of_char c :: nat) in [CHR ''%'', hex_digit (n div 16), hex_digit (n mod 16)])"

definition encodeURIComponent :: "string \<Rightarrow> string" where
  "encodeURIComponent s =
     concat (map (\<lambda>c. if unreserved c then [c] else percent_encode c) s)"

section \<open>The world outside the functions\<close>

text \<open>The body of a token-endpoint answer: \<^verbatim>\<open>{access_token, expires_in}\<close>.\<close>

record token_response =
  access_token :: string
  expires_in :: int

text \<open>
  The \<^verbatim>\<open>requestBody\<close> object of \<^verbatim>\<open>createPayment\<close>: the four members that vary
  with the call. Every other member (payment method, beneficiary account, user name,
  address) is a literal of the source.
\<close>

record request_body =
  body_amount_in_minor :: number
  body_currency :: string
  body_reference :: string
  body_user_id :: string

text \<open>The argument object handed to \<^verbatim>\<open>sign\<close> of the signing library.\<close>

record sign_args =
  sa_kid :: string
  sa_privateKeyPem :: string
  sa_method :: string
  sa_path :: string
  sa_headers :: "(string \<times> string) list"
  sa_body :: string

text \<open>A POST request as it leaves the axios instance.\<close>

record http_request =
  rq_path :: string
  rq_body :: request_body
  rq_headers :: "(string \<times> string) list"

text \<open>
  What a rejected axios call carries: the \<^verbatim>\<open>Error\<close> thrown by the request
  interceptor (it has no \<^verbatim>\<open>response\<close>), or a gateway failure with the optional
  \<^verbatim>\<open>response.data.title\<close>.
\<close>

datatype rejection = InterceptorError error | GatewayError "string option"

fun rejection_title :: "rejection \<Rightarrow> string option" where
  "rejection_title (InterceptorError e) = None"
| "rejection_title (GatewayError t) = t"

text \<open>
  The configuration of the service instance and the collaborators it calls. Each
  external source of values is a function of how often it has been asked: the
  \<open>n\<close>-th UUID, the \<open>n\<close>-th clock reading (milliseconds), the answer to the \<open>n\<close>-th
  token exchange, to the \<open>n\<close>-th POST and to the \<open>n\<close>-th GET. \<open>tl_sign\<close> is the signing
  library, \<open>JSON_stringify\<close> and \<open>toISOString\<close> are the built-ins of these names.
  \<open>table_put\<close> is the answer of the document client to a \<open>PutCommand\<close> of an item:
  \<open>None\<close> when the item is written, \<open>Some e\<close> when the command is rejected with the
  error \<open>e\<close> (the client throws when it cannot marshal the item, and the table can
  refuse it).
\<close>

record env =
  kid :: string
  privateKeyPem :: string
  clientId :: string
  clientSecret :: string
  authUrl :: string
  tl_sign :: "sign_args \<Rightarrow> string"
  JSON_stringify :: "request_body \<Rightarrow> string"
  randomUUID :: "nat \<Rightarrow> string"
  Date_now :: "nat \<Rightarrow> int"
  toISOString :: "int \<Rightarrow> string"
  token_endpoint :: "nat \<Rightarrow> string \<Rightarrow> (string \<times> string) list \<Rightarrow> rejection + token_response"
  gateway_post :: "nat \<Rightarrow> http_request \<Rightarrow> rejection + TrueLayerPaymentResponse"
  gateway_get :: "nat \<Rightarrow> string \<Rightarrow> rejection + TrueLayerPaymentResponse"
  table_put :: "Payment \<Rightarrow> error option"

text \<open>
  The mutable state: the two instance fields of the service (\<open>accessToken\<close>,
  \<open>tokenExpiresAt\<close>), the payments table keyed by \<open>(userId, paymentId)\<close>, and a
  log of the effects performed so far.
\<close>

record world =
  accessToken :: "string option"
  tokenExpiresAt :: int
  exchanges :: nat
  clock_reads :: nat
  uuid_draws :: nat
  sign_calls :: "sign_args list"
  posts :: "http_request list"
  gets :: "string list"
  getPayment_calls :: nat
  sleeps :: "nat list"
  payments_table :: "(string \<times> string) \<rightharpoonup> Payment"

text \<open>A service instance as the constructor leaves it, with an empty table.\<close>

definition initial_world :: world where
  "initial_world =
     \<lparr>accessToken = None, tokenExpiresAt = 0, exchanges = 0, clock_reads = 0,
      uuid_draws = 0, sign_calls = [], posts = [], gets = [], getPayment_calls = 0,
      sleeps = [], payments_table = Map.empty\<rparr>"

text \<open>\<^verbatim>\<open>Date.now()\<close>, \<^verbatim>\<open>crypto.randomUUID()\<close> and the timer of the polling loop.\<close>

definition now :: "env \<Rightarrow> world \<Rightarrow> int \<times> world" where
  "now env w = (Date_now env (clock_reads w), w\<lparr>clock_reads := Suc (clock_reads w)\<rparr>)"

definition draw_uuid :: "env \<Rightarrow> world \<Rightarrow> string \<times> world" where
  "draw_uuid env w = (randomUUID env (uuid_draws w), w\<lparr>uuid_draws := Suc (uuid_draws w)\<rparr>)"

definition sleep :: "nat \<Rightarrow> world \<Rightarrow> world" where
  "sleep ms w = w\<lparr>sleeps := sleeps w @ [ms]\<rparr>"

section \<open>The gateway service (server/src/services/truelayer.ts)\<close>

subsection \<open>getAccessToken\<close>

text \<open>
  The function suspends once, at \<^verbatim>\<open>await axios.post\<close>. Up to there it runs without
  interruption: the test of the cache and, on a miss, the dispatch of the exchange.
  \<open>Awaiting n\<close> says that the call now waits for the answer to exchange \<open>n\<close>.
\<close>

datatype token_step = Cached string | Awaiting nat

definition start_exchange :: "world \<Rightarrow> token_step \<times> world" where
  "start_exchange w = (Awaiting (exchanges w), w\<lparr>exchanges := Suc (exchanges w)\<rparr>)"

definition getAccessToken_begin :: "env \<Rightarrow> world \<Rightarrow> token_step \<times> world" where
  "getAccessToken_begin env w =
     (case accessToken w of
        None \<Rightarrow> start_exchange w
      | Some t \<Rightarrow>
          if \<not> truthy t then start_exchange w
          else (case now env w of
                  (ms, w1) \<Rightarrow>
                    if ms < tokenExpiresAt w1 then (Cached t, w1) else start_exchange w1))"

text \<open>The request of the exchange: the URL and the form it posts.\<close>

definition token_url :: "env \<Rightarrow> string" where
  "token_url env = authUrl env @ ''/connect/token''"

definition token_params :: "env \<Rightarrow> (string \<times> string) list" where
  "token_params env =
     [(''grant_type'', ''client_credentials''), (''client_id'', clientId env),
      (''client_secret'', clientSecret env), (''scope'', ''payments'')]"

text \<open>
  The rest of the function, run when the answer to exchange \<open>n\<close> arrives: store the
  token and its expiry and return the token, or throw.
\<close>

definition getAccessToken_resume :: "env \<Rightarrow> nat \<Rightarrow> world \<Rightarrow> (error + string) \<times> world" where
  "getAccessToken_resume env n w =
     (case token_endpoint env n (token_url env) (token_params env) of
        Inl e \<Rightarrow> (Inl (Error ''Failed to authenticate with TrueLayer''), w)
      | Inr response \<Rightarrow>
          (case now env (w\<lparr>accessToken := Some (access_token response)\<rparr>) of
             (t, w1) \<Rightarrow>
               (Inr (access_token response),
                w1\<lparr>tokenExpiresAt := t + (expires_in response - 60) * 1000\<rparr>)))"

text \<open>
  The test of the first line, \<^verbatim>\<open>this.accessToken && Date.now() < this.tokenExpiresAt\<close>,
  as a predicate on the state: a token is cached, it is not the empty string, and the
  next clock reading is before the stored expiry.
\<close>

definition cache_valid :: "env \<Rightarrow> world \<Rightarrow> bool" where
  "cache_valid env w =
     (case accessToken w of
        None \<Rightarrow> False
      | Some t \<Rightarrow> truthy t \<and> Date_now env (clock_reads w) < tokenExpiresAt w)"

text \<open>What the caller that started exchange \<open>n\<close> gets back from it.\<close>

definition token_of_exchange :: "env \<Rightarrow> nat \<Rightarrow> error + string" where
  "token_of_exchange env n =
     (case token_endpoint env n (token_url env) (token_params env) of
        Inl e \<Rightarrow> Inl (Error ''Failed to authenticate with TrueLayer'')
      | Inr response \<Rightarrow> Inr (access_token response))"

text \<open>One call that nothing interleaves with.\<close>

definition getAccessToken :: "env \<Rightarrow> world \<Rightarrow> (error + string) \<times> world" where
  "getAccessToken env w =
     (case getAccessToken_begin env w of
        (Cached t, w1) \<Rightarrow> (Inr t, w1)
      | (Awaiting n, w1) \<Rightarrow> getAccessToken_resume env n w1)"

subsection \<open>signRequest\<close>

text \<open>
  The body is serialized once and handed to the signing library with the key id, the
  key, the method in upper case, the path and the header subset that holds the
  idempotency key. The library is taken to return a signature: the key it needs was
  loaded by the constructor, which throws when the key file is missing.
\<close>

definition signRequest ::
  "env \<Rightarrow> string \<Rightarrow> string \<Rightarrow> request_body \<Rightarrow> string \<Rightarrow> world \<Rightarrow> string \<times> world" where
  "signRequest env method path body idempotencyKey w =
     (let bodyString = JSON_stringify env body;
          args = \<lparr>sa_kid = kid env, sa_privateKeyPem = privateKeyPem env,
                  sa_method = toUpperCase method, sa_path = path,
                  sa_headers = [(''Idempotency-Key'', idempotencyKey)],
                  sa_body = bodyString\<rparr>
      in (tl_sign env args, w\<lparr>sign_calls := sign_calls w @ [args]\<rparr>))"

subsection \<open>The axios instance\<close>

text \<open>
  Every request of the instance first runs the interceptor, which awaits
  \<open>getAccessToken\<close> and sets the \<^verbatim>\<open>Authorization\<close> header; the request is sent only
  if that succeeds.
\<close>

definition axios_post ::
  "env \<Rightarrow> string \<Rightarrow> request_body \<Rightarrow> (string \<times> string) list \<Rightarrow> world
     \<Rightarrow> (rejection + TrueLayerPaymentResponse) \<times> world" where
  "axios_post env path body headers w =
     (case getAccessToken env w of
        (Inl e, w1) \<Rightarrow> (Inl (InterceptorError e), w1)
      | (Inr token, w1) \<Rightarrow>
          (let rq = \<lparr>rq_path = path, rq_body = body,
                     rq_headers = (''Content-Type'', ''application/json'') # headers
                                  @ [(''Authorization'', ''Bearer '' @ token)]\<rparr>
           in (gateway_post env (length (posts w1)) rq, w1\<lparr>posts := posts w1 @ [rq]\<rparr>)))"

definition axios_get ::
  "env \<Rightarrow> string \<Rightarrow> world \<Rightarrow> (rejection + TrueLayerPaymentResponse) \<times> world" where
  "axios_get env path w =
     (case getAccessToken env w of
        (Inl e, w1) \<Rightarrow> (Inl (InterceptorError e), w1)
      | (Inr token, w1) \<Rightarrow>
          (gateway_get env (length (gets w1)) path, w1\<lparr>gets := gets w1 @ [path]\<rparr>))"

subsection \<open>createPayment and getPayment\<close>

definition hosted_payments_page :: "string \<Rightarrow> string \<Rightarrow> string" where
  "hosted_payments_page pid token =
     ''https://payment.truelayer-sandbox.com/payments#payment_id='' @ pid
     @ ''&resource_token='' @ token
     @ ''&return_uri='' @ encodeURIComponent ''http://localhost:5173/dashboard''"

definition build_requestBody :: "CreatePaymentRequest \<Rightarrow> string \<Rightarrow> request_body" where
  "build_requestBody paymentData user_uuid =
     \<lparr>body_amount_in_minor = times_number (req_amount paymentData) (Fin 100),
      body_currency = toUpperCase (req_currency paymentData),
      body_reference = req_reference paymentData,
      body_user_id = user_uuid\<rparr>"

definition createPayment ::
  "env \<Rightarrow> CreatePaymentRequest \<Rightarrow> world \<Rightarrow> (error + TrueLayerPaymentResponse) \<times> world" where
  "createPayment env paymentData w =
     (case draw_uuid env w of
        (user_uuid, w1) \<Rightarrow>
     (let requestBody = build_requestBody paymentData user_uuid in
      case draw_uuid env w1 of
        (idempotencyKey, w2) \<Rightarrow>
      (case signRequest env ''POST'' ''/v3/payments'' requestBody idempotencyKey w2 of
        (signature, w3) \<Rightarrow>
      (case axios_post env ''/v3/payments'' requestBody
              [(''Tl-Signature'', signature), (''Idempotency-Key'', idempotencyKey)] w3 of
         (Inl rej, w4) \<Rightarrow>
           (Inl (Error (case rejection_title rej of
                          None \<Rightarrow> ''Failed to create payment''
                        | Some title \<Rightarrow>
                            if truthy title then title else ''Failed to create payment'')),
            w4)
       | (Inr payment, w4) \<Rightarrow>
           (Inr (case resource_token payment of
                   None \<Rightarrow> payment
                 | Some rt \<Rightarrow>
                     if truthy rt \<and> truthy (tl_id payment)
                     then payment\<lparr>hosted_payments_page_url :=
                                     Some (hosted_payments_page (tl_id payment) rt)\<rparr>
                     else payment),
            w4)))))"

definition getPayment ::
  "env \<Rightarrow> string \<Rightarrow> world \<Rightarrow> (error + TrueLayerPaymentResponse) \<times> world" where
  "getPayment env pid w =
     (case axios_get env (''/v3/payments/'' @ pid)
             (w\<lparr>getPayment_calls := Suc (getPayment_calls w)\<rparr>) of
        (Inl rej, w1) \<Rightarrow> (Inl (Error ''Failed to fetch payment details''), w1)
      | (Inr payment, w1) \<Rightarrow> (Inr payment, w1))"

subsection \<open>Concurrent callers of getAccessToken\<close>

text \<open>
  Node runs one continuation at a time, so concurrent calls interleave only at the
  \<^verbatim>\<open>await\<close>. \<open>Call c\<close> is caller \<open>c\<close> invoking the function (it runs up to the await),
  \<open>Answer c\<close> is the arrival of the answer caller \<open>c\<close> waits for (it runs to the end).
\<close>

datatype caller_state = Waiting nat | Returned "error + string"

datatype event = Call nat | Answer nat

fun run_event ::
  "env \<Rightarrow> event \<Rightarrow> (nat \<rightharpoonup> caller_state) \<times> world \<Rightarrow> (nat \<rightharpoonup> caller_state) \<times> world" where
  "run_event env (Call c) (cs, w) =
     (case cs c of
        Some st \<Rightarrow> (cs, w)
      | None \<Rightarrow>
          (case getAccessToken_begin env w of
             (Cached t, w1) \<Rightarrow> (cs(c \<mapsto> Returned (Inr t)), w1)
           | (Awaiting n, w1) \<Rightarrow> (cs(c \<mapsto> Waiting n), w1)))"
| "run_event env (Answer c) (cs, w) =
     (case cs c of
        Some (Waiting n) \<Rightarrow>
          (case getAccessToken_resume env n w of (r, w1) \<Rightarrow> (cs(c \<mapsto> Returned r), w1))
      | _ \<Rightarrow> (cs, w))"

fun run ::
  "env \<Rightarrow> event list \<Rightarrow> (nat \<rightharpoonup> caller_state) \<times> world \<Rightarrow> (nat \<rightharpoonup> caller_state) \<times> world" where
  "run env [] st = st"
| "run env (e # es) st = run env es (run_event env e st)"

text \<open>The callers among \<open>cs\<close> whose exchange is in flight.\<close>

definition in_flight :: "(nat \<rightharpoonup> caller_state) \<Rightarrow> nat list \<Rightarrow> nat list" where
  "in_flight cs callers = filter (\<lambda>c. case cs c of Some (Waiting n) \<Rightarrow> True | _ \<Rightarrow> False) callers"

section \<open>The payments repository (server/src/db/payments.repository.ts)\<close>

text \<open>
  \<^verbatim>\<open>createPayment\<close> awaits a \<open>PutCommand\<close>. When the command is rejected the function
  throws and the table is as before; otherwise the item replaces the one under its key
  and is returned.
\<close>

definition paymentsRepo_createPayment ::
  "env \<Rightarrow> Payment \<Rightarrow> world \<Rightarrow> (error + Payment) \<times> world" where
  "paymentsRepo_createPayment env payment w =
     (case table_put env payment of
        Some e \<Rightarrow> (Inl e, w)
      | None \<Rightarrow>
          (Inr payment,
           w\<lparr>payments_table :=
                (payments_table w)((userId payment, paymentId payment) \<mapsto> payment)\<rparr>))"

text \<open>\<^verbatim>\<open>getPayment\<close> reads the item under a key; the read is taken to be answered.\<close>

definition paymentsRepo_getPayment :: "string \<Rightarrow> string \<Rightarrow> world \<Rightarrow> Payment option" where
  "paymentsRepo_getPayment uid pid w = payments_table w (uid, pid)"

text \<open>
  \<^verbatim>\<open>updatePaymentStatus\<close>: the \<open>UpdateCommand\<close>, taken to be answered, sets \<open>status\<close>
  and \<open>updatedAt\<close>, and \<open>trueLayerData\<close> when it is given, on the item under the key;
  where the key has no item it creates one that holds the key and these attributes
  only (the attributes it lacks are held as the falsy value of their type).
\<close>

definition blank_payment :: "string \<Rightarrow> string \<Rightarrow> Payment" where
  "blank_payment uid pid =
     \<lparr>userId = uid, paymentId = pid, amount = NaN, currency = [],
      status = authorization_required, reference = [], createdAt = [], updatedAt = [],
      paymentLink = None, trueLayerData = None, statusMessage = None, canRetry = None\<rparr>"

definition paymentsRepo_updatePaymentStatus ::
  "env \<Rightarrow> string \<Rightarrow> string \<Rightarrow> PaymentStatus \<Rightarrow> TrueLayerPaymentResponse option \<Rightarrow> world
     \<Rightarrow> Payment \<times> world" where
  "paymentsRepo_updatePaymentStatus env uid pid st tld w =
     (case now env w of
        (t, w1) \<Rightarrow>
          (let item = (case payments_table w1 (uid, pid) of
                         None \<Rightarrow> blank_payment uid pid
                       | Some p \<Rightarrow> p);
               item1 = item\<lparr>status := st, updatedAt := toISOString env t\<rparr>;
               item2 = (case tld of
                          None \<Rightarrow> item1
                        | Some d \<Rightarrow> item1\<lparr>trueLayerData := Some d\<rparr>)
           in (item2, w1\<lparr>payments_table := (payments_table w1)((uid, pid) \<mapsto> item2)\<rparr>)))"

section \<open>The routes (server/src/routes/payments.ts)\<close>

definition mapPaymentStatus :: "TrueLayerPaymentResponse \<Rightarrow> PaymentStatus" where
  "mapPaymentStatus trueLayerPayment = tl_status trueLayerPayment"

text \<open>An answer of a route: a status code with a payment, or with an error object.\<close>

datatype response = Json nat Payment | JsonError nat string string

text \<open>\<^verbatim>\<open>getUserId\<close> (middleware/auth.ts) on the \<^verbatim>\<open>sub\<close> of the request, if any.\<close>

definition getUserId :: "string option \<Rightarrow> error + string" where
  "getUserId sub =
     (case sub of
        None \<Rightarrow> Inl (Error ''User not authenticated'')
      | Some u \<Rightarrow> if truthy u then Inr u else Inl (Error ''User not authenticated''))"

fun message :: "error \<Rightarrow> string" where
  "message (Error m) = m"

subsection \<open>POST /api/payments\<close>

definition post_payments ::
  "env \<Rightarrow> string option \<Rightarrow> CreatePaymentRequest \<Rightarrow> world \<Rightarrow> response \<times> world" where
  "post_payments env sub paymentRequest w =
     (let server_error = (\<lambda>e. JsonError 500 ''Server error''
                             (if truthy (message e) then message e
                              else ''Failed to create payment''))
      in case getUserId sub of
        Inl e \<Rightarrow> (server_error e, w)
      | Inr uid \<Rightarrow>
          if \<not> truthy_number (req_amount paymentRequest)
             \<or> \<not> truthy (req_currency paymentRequest)
             \<or> \<not> truthy (req_reference paymentRequest)
          then (JsonError 400 ''Validation error''
                  ''Missing required fields: amount, currency, reference'', w)
          else if le_zero (req_amount paymentRequest)
          then (JsonError 400 ''Validation error'' ''Amount must be greater than 0'', w)
          else
            (case createPayment env paymentRequest w of
               (Inl e, w1) \<Rightarrow> (server_error e, w1)
             | (Inr trueLayerPayment, w1) \<Rightarrow>
                 (case now env w1 of (t1, w2) \<Rightarrow>
                  case now env w2 of (t2, w3) \<Rightarrow>
                    (let payment =
                           \<lparr>userId = uid,
                            paymentId = tl_id trueLayerPayment,
                            amount = req_amount paymentRequest,
                            currency = toUpperCase (req_currency paymentRequest),
                            status = mapPaymentStatus trueLayerPayment,
                            reference = req_reference paymentRequest,
                            createdAt = toISOString env t1,
                            updatedAt = toISOString env t2,
                            paymentLink = hosted_payments_page_url trueLayerPayment,
                            trueLayerData = Some trueLayerPayment,
                            statusMessage = None, canRetry = None\<rparr>
                     in case paymentsRepo_createPayment env payment w3 of
                          (Inl e, w4) \<Rightarrow> (server_error e, w4)
                        | (Inr stored, w4) \<Rightarrow> (Json 201 payment, w4)))))"

subsection \<open>POST /api/payments/:id/refresh-status\<close>

definition maxAttempts :: nat where
  "maxAttempts = 4"

definition delayMs :: nat where
  "delayMs = 800"

text \<open>
  The polling loop, from the loop test on: \<open>attempt\<close> and \<open>trueLayerPayment\<close> are its
  two variables. It ends by \<^verbatim>\<open>break\<close> (\<open>Inr\<close>, with the variable \<open>trueLayerPayment\<close>)
  or by \<^verbatim>\<open>throw\<close> (\<open>Inl\<close>).
\<close>

function poll ::
  "env \<Rightarrow> string \<Rightarrow> PaymentStatus \<Rightarrow> nat \<Rightarrow> TrueLayerPaymentResponse option \<Rightarrow> world
     \<Rightarrow> (error + TrueLayerPaymentResponse option) \<times> world" where
  "poll env pid originalStatus attempt trueLayerPayment w =
     (if attempt \<le> maxAttempts then
        (case getPayment env pid w of
           (Inr fetched, w1) \<Rightarrow>
             if mapPaymentStatus fetched \<noteq> originalStatus then (Inr (Some fetched), w1)
             else if attempt < maxAttempts
             then poll env pid originalStatus (attempt + 1) (Some fetched) (sleep delayMs w1)
             else (Inr (Some fetched), w1)
         | (Inl e, w1) \<Rightarrow>
             if attempt = maxAttempts then (Inl e, w1)
             else poll env pid originalStatus (attempt + 1) trueLayerPayment (sleep delayMs w1))
      else (Inr trueLayerPayment, w))"
  by pat_completeness auto
termination
  by (relation "measure (\<lambda>(env, pid, originalStatus, attempt, trueLayerPayment, w).
                   Suc maxAttempts - attempt)") auto

declare poll.simps [simp del]

definition refresh_status :: "env \<Rightarrow> string option \<Rightarrow> string \<Rightarrow> world \<Rightarrow> response \<times> world" where
  "refresh_status env sub pid w =
     (let server_error = JsonError 500 ''Server error''
                           ''Failed to refresh payment status from TrueLayer''
      in case getUserId sub of
        Inl e \<Rightarrow> (server_error, w)
      | Inr uid \<Rightarrow>
          (case paymentsRepo_getPayment uid pid w of
             None \<Rightarrow> (JsonError 404 ''Not found'' ''Payment not found'', w)
           | Some payment \<Rightarrow>
               (let originalStatus = status payment in
                case poll env pid originalStatus 1 None w of
                  (Inl e, w1) \<Rightarrow> (server_error, w1)
                | (Inr None, w1) \<Rightarrow> (Json 200 payment, w1)
                | (Inr (Some trueLayerPayment), w1) \<Rightarrow>
                    (let mappedStatus = mapPaymentStatus trueLayerPayment in
                     if mappedStatus \<noteq> status payment then
                       (case paymentsRepo_updatePaymentStatus env uid pid mappedStatus
                               (Some trueLayerPayment) w1 of
                          (updated, w2) \<Rightarrow>
                            (case now env w2 of
                               (t, w3) \<Rightarrow>
                                 (Json 200 (payment\<lparr>status := mappedStatus,
                                                    trueLayerData := Some trueLayerPayment,
                                                    updatedAt := toISOString env t\<rparr>), w3)))
                     else if mappedStatus = originalStatus then
                       (Json 200
                          (payment\<lparr>statusMessage := Some
                              ''Payment status is still processing. It may take a few moments to update.'',
                             canRetry := Some True\<rparr>), w1)
                     else (Json 200 payment, w1)))))"

section \<open>Sample data\<close>

text \<open>
  Concrete values on which the properties below are exercised: a gateway answer with a
  given status, a stored payment of 50 GBP awaiting authorization, and an environment
  built from the scripted answers of the token endpoint, of GET and of POST.
\<close>

definition sample_response :: "PaymentStatus \<Rightarrow> TrueLayerPaymentResponse" where
  "sample_response s =
     \<lparr>tl_id = ''pay-1'', amount_in_minor = Fin 5000, tl_currency = ''GBP'',
      payment_method = ''{}'', user = ''{}'', tl_status = s,
      created_at = ''2026-01-01T00:00:00.000Z'', resource_token = Some ''abc'',
      hosted_payments_page_url = None, failure_reason = None\<rparr>"

definition sample_payment :: Payment where
  "sample_payment =
     \<lparr>userId = ''user-1'', paymentId = ''pay-1'', amount = Fin 50, currency = ''GBP'',
      status = authorization_required, reference = ''Invoice 1'',
      createdAt = ''2026-01-01T00:00:00.000Z'', updatedAt = ''2026-01-01T00:00:00.000Z'',
      paymentLink = None, trueLayerData = None, statusMessage = None, canRetry = None\<rparr>"

definition sample_token :: "string \<Rightarrow> token_response" where
  "sample_token t = \<lparr>access_token = t, expires_in = 14400\<rparr>"

text \<open>
  A table that answers a put as the document client does for numbers: the item is
  refused when its amount, or the amount inside its gateway data, is not finite or
  lies beyond the safe integers \<open>\<plusminus>(2\<^sup>5\<^sup>3 - 1)\<close>, and written otherwise.
\<close>

fun marshallable :: "number \<Rightarrow> bool" where
  "marshallable (Fin r) = (\<bar>r\<bar> \<le> 2 ^ 53 - 1)"
| "marshallable PosInfinity = False"
| "marshallable NegInfinity = False"
| "marshallable NaN = False"

definition sample_put :: "Payment \<Rightarrow> error option" where
  "sample_put item =
     (if marshallable (amount item)
         \<and> (case trueLayerData item of
               None \<Rightarrow> True
             | Some d \<Rightarrow> marshallable (amount_in_minor d))
      then None
      else Some (Error ''The item holds a number that cannot be marshalled''))"

definition sample_env ::
  "(nat \<Rightarrow> rejection + token_response) \<Rightarrow> (nat \<Rightarrow> rejection + TrueLayerPaymentResponse)
     \<Rightarrow> (rejection + TrueLayerPaymentResponse) \<Rightarrow> env" where
  "sample_env tokens get_answers post_answer =
     \<lparr>kid = ''key-1'', privateKeyPem = ''pem'', clientId = ''client'',
      clientSecret = ''secret'', authUrl = ''https://auth.truelayer-sandbox.com'',
      tl_sign = (\<lambda>a. ''signed:'' @ sa_body a),
      JSON_stringify = (\<lambda>b. body_reference b),
      randomUUID = (\<lambda>n. ''uuid-'' @ [hex_digit n]),
      Date_now = (\<lambda>n. 1000 * int n),
      toISOString = (\<lambda>t. ''T+'' @ [hex_digit (nat t div 1000)]),
      token_endpoint = (\<lambda>n url params. tokens n),
      gateway_post = (\<lambda>n rq. post_answer),
      gateway_get = (\<lambda>n path. get_answers n),
      table_put = sample_put\<rparr>"

definition sample_world :: world where
  "sample_world = initial_world\<lparr>payments_table := [(''user-1'', ''pay-1'') \<mapsto> sample_payment]\<rparr>"

definition sample_request :: CreatePaymentRequest where
  "sample_request = \<lparr>req_amount = Fin 50, req_currency = ''gbp'', req_reference = ''Invoice 1''\<rparr>"

section \<open>Auxiliary facts\<close>

subsection \<open>What a token acquisition and a fetch leave alone\<close>

lemmas token_defs = getAccessToken_def getAccessToken_begin_def getAccessToken_resume_def
  start_exchange_def now_def

lemma getAccessToken_frame:
  "gets (snd (getAccessToken env w)) = gets w"
  "posts (snd (getAccessToken env w)) = posts w"
  "getPayment_calls (snd (getAccessToken env w)) = getPayment_calls w"
  "sleeps (snd (getAccessToken env w)) = sleeps w"
  "payments_table (snd (getAccessToken env w)) = payments_table w"
  "uuid_draws (snd (getAccessToken env w)) = uuid_draws w"
  "sign_calls (snd (getAccessToken env w)) = sign_calls w"
  by (simp_all add: token_defs split: option.splits sum.splits prod.splits)

lemma getAccessToken_ok:
  assumes "\<forall>n u ps. \<exists>r. token_endpoint env n u ps = Inr r"
  shows "\<exists>t. fst (getAccessToken env w) = Inr t"
proof -
  have r: "\<exists>t. fst (getAccessToken_resume env n w') = Inr t" for n w'
  proof -
    from assms obtain resp where
      "token_endpoint env n (token_url env) (token_params env) = Inr resp"
      by blast
    then show ?thesis
      by (simp add: getAccessToken_resume_def now_def)
  qed
  show ?thesis
    using r by (auto simp: getAccessToken_def split: prod.splits token_step.splits)
qed

lemma getPayment_frame:
  "getPayment_calls (snd (getPayment env pid w)) = Suc (getPayment_calls w)"
  "sleeps (snd (getPayment env pid w)) = sleeps w"
  "payments_table (snd (getPayment env pid w)) = payments_table w"
  using getAccessToken_frame [of env "w\<lparr>getPayment_calls := Suc (getPayment_calls w)\<rparr>"]
  by (auto simp: getPayment_def axios_get_def split: prod.splits sum.splits)

lemma getPayment_ok:
  assumes "\<forall>n u ps. \<exists>r. token_endpoint env n u ps = Inr r"
    and "gateway_get env (length (gets w)) (''/v3/payments/'' @ pid) = Inr r"
  shows "fst (getPayment env pid w) = Inr r"
    and "length (gets (snd (getPayment env pid w))) = Suc (length (gets w))"
  using getAccessToken_ok [OF assms(1), of "w\<lparr>getPayment_calls := Suc (getPayment_calls w)\<rparr>"]
        getAccessToken_frame(1) [of env "w\<lparr>getPayment_calls := Suc (getPayment_calls w)\<rparr>"] assms(2)
  by (auto simp: getPayment_def axios_get_def split: prod.splits sum.splits)

subsection \<open>The polling loop\<close>


lemma poll_exhausts:
  assumes tok: "\<forall>n u ps. \<exists>r. token_endpoint env n u ps = Inr r"
    and "a + n = maxAttempts"
    and "\<forall>j\<le>n. \<exists>r'. gateway_get env (length (gets w) + j) (''/v3/payments/'' @ pid) = Inr r'
                     \<and> tl_status r' = orig"
  shows "\<exists>r. fst (poll env pid orig a tlp w) = Inr (Some r) \<and> tl_status r = orig
       \<and> getPayment_calls (snd (poll env pid orig a tlp w)) = getPayment_calls w + Suc n
       \<and> sleeps (snd (poll env pid orig a tlp w)) = sleeps w @ replicate n delayMs
       \<and> payments_table (snd (poll env pid orig a tlp w)) = payments_table w"
  using assms(2-)
proof (induction n arbitrary: a tlp w)
  case 0
  then obtain r0 where
    r0: "gateway_get env (length (gets w)) (''/v3/payments/'' @ pid) = Inr r0" "tl_status r0 = orig"
    by force
  have gp: "getPayment env pid w = (Inr r0, snd (getPayment env pid w))"
    using getPayment_ok(1) [OF tok r0(1)] by (simp add: prod_eq_iff)
  have unfold: "poll env pid orig a tlp w = (Inr (Some r0), snd (getPayment env pid w))"
    using 0(1) r0(2)
    by (subst poll.simps, subst gp) (simp add: mapPaymentStatus_def)
  show ?case
    using getPayment_frame [of env pid w] r0(2) by (simp add: unfold)
next
  case (Suc n)
  from Suc.prems(2) obtain r0 where
    r0: "gateway_get env (length (gets w)) (''/v3/payments/'' @ pid) = Inr r0" "tl_status r0 = orig"
    by force
  let ?w1 = "snd (getPayment env pid w)"
  have g: "fst (getPayment env pid w) = Inr r0"
    and l: "length (gets ?w1) = Suc (length (gets w))"
    using getPayment_ok [OF tok r0(1)] by simp_all
  let ?w2 = "sleep delayMs ?w1"
  have l2: "length (gets ?w2) = Suc (length (gets w))"
    using l by (simp add: sleep_def)
  have ih: "\<exists>r. fst (poll env pid orig (a + 1) (Some r0) ?w2) = Inr (Some r) \<and> tl_status r = orig
       \<and> getPayment_calls (snd (poll env pid orig (a + 1) (Some r0) ?w2)) = getPayment_calls ?w2 + Suc n
       \<and> sleeps (snd (poll env pid orig (a + 1) (Some r0) ?w2)) = sleeps ?w2 @ replicate n delayMs
       \<and> payments_table (snd (poll env pid orig (a + 1) (Some r0) ?w2)) = payments_table ?w2"
  proof (rule Suc.IH)
    show "a + 1 + n = maxAttempts" using Suc.prems(1) by simp
    show "\<forall>j\<le>n. \<exists>r'. gateway_get env (length (gets ?w2) + j) (''/v3/payments/'' @ pid) = Inr r'
                     \<and> tl_status r' = orig"
      using Suc.prems(2) l2 by (metis Suc_le_mono add_Suc add_Suc_right)
  qed
  have a: "a < maxAttempts" using Suc.prems(1) by simp
  have gp: "getPayment env pid w = (Inr r0, ?w1)"
    using g by (simp add: prod_eq_iff)
  have unfold: "poll env pid orig a tlp w = poll env pid orig (a + 1) (Some r0) ?w2"
    using a r0(2)
    by (subst poll.simps, subst gp) (simp add: mapPaymentStatus_def)
  show ?case
    using ih getPayment_frame [of env pid w]
    by (simp add: unfold sleep_def replicate_app_Cons_same)
qed

lemma poll_table:
  "payments_table (snd (poll env pid orig a tlp w)) = payments_table w"
proof (induction env pid orig a tlp w rule: poll.induct)
  case (1 env pid orig a tlp w)
  show ?case
  proof (cases "a \<le> maxAttempts")
    case False
    then show ?thesis by (subst poll.simps) simp
  next
    case True
    obtain res w1 where gp: "getPayment env pid w = (res, w1)" by (cases "getPayment env pid w")
    have t1: "payments_table w1 = payments_table w"
      using getPayment_frame(3) [of env pid w] gp by simp
    show ?thesis
    proof (cases res)
      case (Inl e)
      show ?thesis
        using True gp Inl t1 "1.IH"(1) [OF True gp [symmetric] Inl]
        by (subst poll.simps) (simp add: sleep_def)
    next
      case (Inr fetched)
      show ?thesis
        using True gp Inr t1 "1.IH"(2) [OF True gp [symmetric] Inr]
        by (subst poll.simps) (simp add: sleep_def)
    qed
  qed
qed

subsection \<open>The refresh route after the loop\<close>

lemmas route_defs = refresh_status_def getUserId_def paymentsRepo_getPayment_def
  paymentsRepo_updatePaymentStatus_def now_def

lemma refresh_status_changed:
  assumes "truthy uid" and "payments_table w (uid, pid) = Some payment"
    and "poll env pid (status payment) 1 None w = (Inr (Some r), w1)"
    and "mapPaymentStatus r \<noteq> status payment"
  shows "refresh_status env (Some uid) pid w
      = (Json 200 (payment\<lparr>status := mapPaymentStatus r, trueLayerData := Some r,
            updatedAt := toISOString env (Date_now env (Suc (clock_reads w1)))\<rparr>),
         w1\<lparr>clock_reads := Suc (Suc (clock_reads w1)),
            payments_table := (payments_table w1)((uid, pid) \<mapsto>
               (case payments_table w1 (uid, pid) of
                  None \<Rightarrow> blank_payment uid pid | Some p \<Rightarrow> p)
               \<lparr>status := mapPaymentStatus r,
                  updatedAt := toISOString env (Date_now env (clock_reads w1)),
                  trueLayerData := Some r\<rparr>)\<rparr>)"
  using assms by (simp add: route_defs Let_def)

lemma refresh_status_unchanged:
  assumes "truthy uid" and "payments_table w (uid, pid) = Some payment"
    and "poll env pid (status payment) 1 None w = (Inr (Some r), w1)"
    and "mapPaymentStatus r = status payment"
  shows "refresh_status env (Some uid) pid w
      = (Json 200 (payment\<lparr>statusMessage := Some
              ''Payment status is still processing. It may take a few moments to update.'',
            canRetry := Some True\<rparr>), w1)"
  using assms by (simp add: route_defs Let_def)

lemma refresh_status_thrown:
  assumes "truthy uid" and "payments_table w (uid, pid) = Some payment"
    and "poll env pid (status payment) 1 None w = (Inl e, w1)"
  shows "refresh_status env (Some uid) pid w
      = (JsonError 500 ''Server error'' ''Failed to refresh payment status from TrueLayer'', w1)"
  using assms by (simp add: route_defs Let_def)

subsection \<open>Which answers the loop returns\<close>

lemma getPayment_gets:
  "length (gets w) \<le> length (gets (snd (getPayment env pid w)))"
  "fst (getPayment env pid w) = Inr r \<Longrightarrow>
     gateway_get env (length (gets w)) (''/v3/payments/'' @ pid) = Inr r
     \<and> length (gets (snd (getPayment env pid w))) = Suc (length (gets w))"
  using getAccessToken_frame(1) [of env "w\<lparr>getPayment_calls := Suc (getPayment_calls w)\<rparr>"]
  by (auto simp: getPayment_def axios_get_def split: prod.splits sum.splits)

lemma poll_gets_mono:
  "length (gets w) \<le> length (gets (snd (poll env pid orig a tlp w)))"
proof (induction env pid orig a tlp w rule: poll.induct)
  case (1 env pid orig a tlp w)
  show ?case
  proof (cases "a \<le> maxAttempts")
    case False
    then show ?thesis by (subst poll.simps) simp
  next
    case True
    obtain res w1 where gp: "getPayment env pid w = (res, w1)" by (cases "getPayment env pid w")
    have t1: "length (gets w) \<le> length (gets w1)"
      using getPayment_gets(1) [of w env pid] gp by simp
    show ?thesis
    proof (cases res)
      case (Inl e)
      show ?thesis
        using True gp Inl t1 "1.IH"(1) [OF True gp [symmetric] Inl]
        by (subst poll.simps) (auto simp: sleep_def)
    next
      case (Inr fetched)
      show ?thesis
        using True gp Inr t1 "1.IH"(2) [OF True gp [symmetric] Inr]
        by (subst poll.simps) (auto simp: sleep_def)
    qed
  qed
qed

lemma poll_fetched_here:
  assumes "fst (poll env pid orig a tlp w) = Inr (Some r)"
  shows "tlp = Some r
       \<or> (\<exists>n. length (gets w) \<le> n \<and> n < length (gets (snd (poll env pid orig a tlp w)))
              \<and> gateway_get env n (''/v3/payments/'' @ pid) = Inr r)"
  using assms
proof (induction env pid orig a tlp w rule: poll.induct)
  case (1 env pid orig a tlp w)
  show ?case
  proof (cases "a \<le> maxAttempts")
    case False
    then show ?thesis using "1.prems" by (subst (asm) poll.simps) simp
  next
    case True
    obtain res w1 where gp: "getPayment env pid w = (res, w1)" by (cases "getPayment env pid w")
    have t1: "length (gets w) \<le> length (gets w1)"
      using getPayment_gets(1) [of w env pid] gp by simp
    show ?thesis
    proof (cases res)
      case (Inl e)
      show ?thesis
      proof (cases "a = maxAttempts")
        case True
        then show ?thesis using \<open>a \<le> maxAttempts\<close> gp Inl "1.prems"
          by (subst (asm) poll.simps) simp
      next
        case False
        let ?w2 = "sleep delayMs w1"
        have eq: "poll env pid orig a tlp w = poll env pid orig (a + 1) tlp ?w2"
          using True False gp Inl by (subst poll.simps) simp
        have "tlp = Some r
           \<or> (\<exists>n. length (gets ?w2) \<le> n
                  \<and> n < length (gets (snd (poll env pid orig (a + 1) tlp ?w2)))
                  \<and> gateway_get env n (''/v3/payments/'' @ pid) = Inr r)"
          using "1.IH"(1) [OF True gp [symmetric] Inl False] "1.prems" eq by simp
        then show ?thesis
          using t1 by (auto simp: eq sleep_def)
      qed
    next
      case (Inr fetched)
      have f: "gateway_get env (length (gets w)) (''/v3/payments/'' @ pid) = Inr fetched"
        and l: "length (gets w1) = Suc (length (gets w))"
        using getPayment_gets(2) [of env pid w fetched] gp Inr by simp_all
      show ?thesis
      proof (cases "mapPaymentStatus fetched \<noteq> orig \<or> \<not> a < maxAttempts")
        case stop: True
        then have eq: "poll env pid orig a tlp w = (Inr (Some fetched), w1)"
          using True gp Inr by (subst poll.simps) auto
        show ?thesis
          using "1.prems" f l by (auto simp: eq)
      next
        case go: False
        let ?w2 = "sleep delayMs w1"
        have eq: "poll env pid orig a tlp w = poll env pid orig (a + 1) (Some fetched) ?w2"
          using True go gp Inr by (subst poll.simps) auto
        have l2: "length (gets ?w2) = Suc (length (gets w))"
          using l by (simp add: sleep_def)
        have m: "length (gets ?w2) \<le> length (gets (snd (poll env pid orig (a + 1) (Some fetched) ?w2)))"
          by (rule poll_gets_mono)
        have "Some fetched = Some r
           \<or> (\<exists>n. length (gets ?w2) \<le> n
                  \<and> n < length (gets (snd (poll env pid orig (a + 1) (Some fetched) ?w2)))
                  \<and> gateway_get env n (''/v3/payments/'' @ pid) = Inr r)"
          using "1.IH"(2) [OF True gp [symmetric] Inr] go "1.prems" eq by simp
        then show ?thesis
        proof
          assume "Some fetched = Some r"
          then show ?thesis using f l2 m by (auto simp: eq)
        next
          assume "\<exists>n. length (gets ?w2) \<le> n
                  \<and> n < length (gets (snd (poll env pid orig (a + 1) (Some fetched) ?w2)))
                  \<and> gateway_get env n (''/v3/payments/'' @ pid) = Inr r"
          then show ?thesis using l2 by (auto simp: eq)
        qed
      qed
    qed
  qed
qed

lemma refresh_status_none:
  assumes "truthy uid" and "payments_table w (uid, pid) = Some payment"
    and "poll env pid (status payment) 1 None w = (Inr None, w1)"
  shows "refresh_status env (Some uid) pid w = (Json 200 payment, w1)"
  using assms by (simp add: route_defs Let_def)

lemmas service_defs = getPayment_def axios_get_def token_defs

lemmas sample_defs = sample_env_def sample_world_def initial_world_def sample_token_def
  sample_payment_def sample_response_def

lemmas poll_eval = route_defs poll.simps service_defs truthy_def maxAttempts_def delayMs_def
  sleep_def mapPaymentStatus_def Let_def

subsection \<open>The token lease\<close>

lemma getAccessToken_hit:
  assumes "accessToken w = Some t" "truthy t" "Date_now env (clock_reads w) < tokenExpiresAt w"
  shows "getAccessToken env w = (Inr t, w\<lparr>clock_reads := Suc (clock_reads w)\<rparr>)"
  using assms by (simp add: token_defs)

lemma getAccessToken_miss:
  assumes "\<not> cache_valid env w"
    and "token_endpoint env (exchanges w) (token_url env) (token_params env) = Inr resp"
  shows "fst (getAccessToken env w) = Inr (access_token resp)"
    and "exchanges (snd (getAccessToken env w)) = Suc (exchanges w)"
    and "accessToken (snd (getAccessToken env w)) = Some (access_token resp)"
    and "0 < clock_reads (snd (getAccessToken env w))"
    and "tokenExpiresAt (snd (getAccessToken env w))
           = Date_now env (clock_reads (snd (getAccessToken env w)) - 1)
             + (expires_in resp - 60) * 1000"
  using assms
  by (auto simp: token_defs cache_valid_def split: option.splits)

lemma cache_valid_cong:
  "accessToken w' = accessToken w \<Longrightarrow> tokenExpiresAt w' = tokenExpiresAt w
     \<Longrightarrow> clock_reads w' = clock_reads w \<Longrightarrow> cache_valid env w' = cache_valid env w"
  by (simp add: cache_valid_def split: option.splits)

lemma getAccessToken_begin_miss:
  assumes "\<not> cache_valid env w"
  shows "fst (getAccessToken_begin env w) = Awaiting (exchanges w)"
    and "exchanges (snd (getAccessToken_begin env w)) = Suc (exchanges w)"
    and "accessToken (snd (getAccessToken_begin env w)) = accessToken w"
    and "tokenExpiresAt (snd (getAccessToken_begin env w)) = tokenExpiresAt w"
    and "clock_reads (snd (getAccessToken_begin env w)) = clock_reads w
         \<or> clock_reads (snd (getAccessToken_begin env w)) = Suc (clock_reads w)"
  using assms
  by (auto simp: getAccessToken_begin_def start_exchange_def now_def cache_valid_def
           split: option.splits)

lemma getAccessToken_resume_result:
  "fst (getAccessToken_resume env n w) = token_of_exchange env n"
  "exchanges (snd (getAccessToken_resume env n w)) = exchanges w"
  by (simp_all add: getAccessToken_resume_def token_of_exchange_def now_def split: sum.splits)

lemma run_append: "run env (xs @ ys) st = run env ys (run env xs st)"
  by (induction xs arbitrary: st) simp_all

lemma run_calls:
  assumes "\<forall>j. \<not> cache_valid env (w\<lparr>clock_reads := clock_reads w + j\<rparr>)"
  shows "exchanges (snd (run env (map Call [0..<N]) (Map.empty, w))) = exchanges w + N
       \<and> accessToken (snd (run env (map Call [0..<N]) (Map.empty, w))) = accessToken w
       \<and> tokenExpiresAt (snd (run env (map Call [0..<N]) (Map.empty, w))) = tokenExpiresAt w
       \<and> (\<exists>j. clock_reads (snd (run env (map Call [0..<N]) (Map.empty, w))) = clock_reads w + j)
       \<and> (\<forall>c. fst (run env (map Call [0..<N]) (Map.empty, w)) c
                = (if c < N then Some (Waiting (exchanges w + c)) else None))"
proof (induction N)
  case 0
  show ?case by simp
next
  case (Suc N)
  obtain cs wN where st: "run env (map Call [0..<N]) (Map.empty, w) = (cs, wN)"
    by (cases "run env (map Call [0..<N]) (Map.empty, w)")
  with Suc obtain j where inv: "exchanges wN = exchanges w + N" "accessToken wN = accessToken w"
      "tokenExpiresAt wN = tokenExpiresAt w" "clock_reads wN = clock_reads w + j"
      "\<forall>c. cs c = (if c < N then Some (Waiting (exchanges w + c)) else None)"
    by auto
  have miss: "\<not> cache_valid env wN"
    using assms inv(2,3,4)
      cache_valid_cong [of wN "w\<lparr>clock_reads := clock_reads w + j\<rparr>" env] by simp
  note b = getAccessToken_begin_miss [OF miss]
  obtain step w' where g: "getAccessToken_begin env wN = (step, w')"
    by (cases "getAccessToken_begin env wN")
  have step: "step = Awaiting (exchanges w + N)" using b(1) g inv(1) by simp
  have ev: "run env (map Call [0..<Suc N]) (Map.empty, w) = (cs(N \<mapsto> Waiting (exchanges w + N)), w')"
    using inv(5) by (simp add: run_append st g step)
  have clock: "\<exists>j'. clock_reads w' = clock_reads w + j'"
    using b(5) g inv(4) by (metis add_Suc_right snd_conv)
  show ?case
    unfolding ev using b(2,3,4) g inv clock by simp
qed

lemma run_answers:
  "exchanges (snd (run env (map Answer order) (cs, w))) = exchanges w
   \<and> fst (run env (map Answer order) (cs, w)) c
       = (case cs c of
            Some (Waiting n) \<Rightarrow>
              if c \<in> set order then Some (Returned (token_of_exchange env n))
              else Some (Waiting n)
          | other \<Rightarrow> other)"
proof (induction order arbitrary: cs w)
  case Nil
  show ?case by (simp split: option.splits caller_state.splits)
next
  case (Cons a order)
  show ?case
  proof (cases "cs a")
    case None
    then show ?thesis using Cons [of cs w]
      by (auto split: option.splits caller_state.splits)
  next
    case (Some st)
    show ?thesis
    proof (cases st)
      case (Returned r)
      then show ?thesis using Some Cons [of cs w]
        by (auto split: option.splits caller_state.splits)
    next
      case (Waiting n)
      obtain r w1 where g: "getAccessToken_resume env n w = (r, w1)"
        by (cases "getAccessToken_resume env n w")
      have r: "r = token_of_exchange env n" "exchanges w1 = exchanges w"
        using getAccessToken_resume_result [of env n w] g by simp_all
      have ev: "run env (map Answer (a # order)) (cs, w)
                  = run env (map Answer order) (cs(a \<mapsto> Returned r), w1)"
        by (simp add: Some Waiting g)
      note ih = Cons [of "cs(a \<mapsto> Returned r)" w1]
      show ?thesis
      proof (cases "c = a")
        case True
        then show ?thesis
          unfolding ev using ih r Some Waiting by (simp add: fun_upd_def)
      next
        case False
        then show ?thesis
          unfolding ev using ih r
          by (simp add: fun_upd_def split: option.splits caller_state.splits)
      qed
    qed
  qed
qed

subsection \<open>Creation\<close>

lemma encoded_return_uri:
  "encodeURIComponent ''http://localhost:5173/dashboard''
     = ''http%3A%2F%2Flocalhost%3A5173%2Fdashboard''"
  by code_simp

lemma toUpperCase_POST: "toUpperCase ''POST'' = ''POST''"
  by code_simp

lemma getAccessToken_cases:
  obtains (thrown) e w1 where "getAccessToken env w = (Inl e, w1)"
      "posts w1 = posts w" "uuid_draws w1 = uuid_draws w" "sign_calls w1 = sign_calls w"
      "payments_table w1 = payments_table w"
    | (token) t w1 where "getAccessToken env w = (Inr t, w1)"
      "posts w1 = posts w" "uuid_draws w1 = uuid_draws w" "sign_calls w1 = sign_calls w"
      "payments_table w1 = payments_table w"
proof (cases "getAccessToken env w")
  case (Pair res w1)
  then have f: "posts w1 = posts w" "uuid_draws w1 = uuid_draws w" "sign_calls w1 = sign_calls w"
      "payments_table w1 = payments_table w"
    using getAccessToken_frame [of env w] by simp_all
  show ?thesis
    using Pair f thrown token by (cases res) blast+
qed

lemma createPayment_unfold:
  "createPayment env paymentData w
      = (case axios_post env ''/v3/payments''
              (build_requestBody paymentData (randomUUID env (uuid_draws w)))
              [(''Tl-Signature'', tl_sign env
                  \<lparr>sa_kid = kid env, sa_privateKeyPem = privateKeyPem env,
                   sa_method = ''POST'', sa_path = ''/v3/payments'',
                   sa_headers = [(''Idempotency-Key'', randomUUID env (Suc (uuid_draws w)))],
                   sa_body = JSON_stringify env
                     (build_requestBody paymentData (randomUUID env (uuid_draws w)))\<rparr>),
               (''Idempotency-Key'', randomUUID env (Suc (uuid_draws w)))]
              (w\<lparr>uuid_draws := Suc (Suc (uuid_draws w)),
                 sign_calls := sign_calls w @
                   [\<lparr>sa_kid = kid env, sa_privateKeyPem = privateKeyPem env,
                     sa_method = ''POST'', sa_path = ''/v3/payments'',
                     sa_headers = [(''Idempotency-Key'', randomUUID env (Suc (uuid_draws w)))],
                     sa_body = JSON_stringify env
                       (build_requestBody paymentData (randomUUID env (uuid_draws w)))\<rparr>]\<rparr>) of
         (Inl rej, w4) \<Rightarrow>
           (Inl (Error (case rejection_title rej of
                          None \<Rightarrow> ''Failed to create payment''
                        | Some title \<Rightarrow>
                            if truthy title then title else ''Failed to create payment'')),
            w4)
       | (Inr payment, w4) \<Rightarrow>
           (Inr (case resource_token payment of
                   None \<Rightarrow> payment
                 | Some rt \<Rightarrow>
                     if truthy rt \<and> truthy (tl_id payment)
                     then payment\<lparr>hosted_payments_page_url :=
                                     Some (hosted_payments_page (tl_id payment) rt)\<rparr>
                     else payment),
            w4))"
  by (simp add: createPayment_def draw_uuid_def signRequest_def Let_def toUpperCase_POST)

lemma createPayment_success:
  assumes tok: "\<forall>n u ps. \<exists>r. token_endpoint env n u ps = Inr r"
    and post: "\<forall>q. gateway_post env (length (posts w)) q = Inr r"
  shows "fst (createPayment env pd w)
           = Inr (case resource_token r of
                   None \<Rightarrow> r
                 | Some rt \<Rightarrow>
                     if truthy rt \<and> truthy (tl_id r)
                     then r\<lparr>hosted_payments_page_url := Some (hosted_payments_page (tl_id r) rt)\<rparr>
                     else r)"
proof -
  let ?args = "\<lparr>sa_kid = kid env, sa_privateKeyPem = privateKeyPem env,
                   sa_method = ''POST'', sa_path = ''/v3/payments'',
                   sa_headers = [(''Idempotency-Key'', randomUUID env (Suc (uuid_draws w)))],
                   sa_body = JSON_stringify env
                     (build_requestBody pd (randomUUID env (uuid_draws w)))\<rparr>"
  let ?w3 = "w\<lparr>uuid_draws := Suc (Suc (uuid_draws w)), sign_calls := sign_calls w @ [?args]\<rparr>"
  show ?thesis
  proof (cases rule: getAccessToken_cases [of env ?w3])
    case (thrown e w1)
    then show ?thesis using getAccessToken_ok [OF tok, of ?w3] by simp
  next
    case (token t w1)
    then show ?thesis
      using post by (simp add: createPayment_unfold axios_post_def Let_def)
  qed
qed

lemma createPayment_table:
  "payments_table (snd (createPayment env pd w)) = payments_table w"
proof -
  let ?args = "\<lparr>sa_kid = kid env, sa_privateKeyPem = privateKeyPem env,
                   sa_method = ''POST'', sa_path = ''/v3/payments'',
                   sa_headers = [(''Idempotency-Key'', randomUUID env (Suc (uuid_draws w)))],
                   sa_body = JSON_stringify env
                     (build_requestBody pd (randomUUID env (uuid_draws w)))\<rparr>"
  let ?w3 = "w\<lparr>uuid_draws := Suc (Suc (uuid_draws w)), sign_calls := sign_calls w @ [?args]\<rparr>"
  show ?thesis
  proof (cases rule: getAccessToken_cases [of env ?w3])
    case (thrown e w1)
    then show ?thesis by (simp add: createPayment_unfold axios_post_def)
  next
    case (token t w1)
    then show ?thesis
      by (simp add: createPayment_unfold axios_post_def Let_def split: sum.splits)
  qed
qed

text \<open>The record the route builds from the request, the gateway's answer and two clock
  readings.\<close>

lemma post_payments_created:
  assumes "truthy uid" "truthy_number (req_amount pd)" "\<not> le_zero (req_amount pd)"
    "truthy (req_currency pd)" "truthy (req_reference pd)"
    and "createPayment env pd w = (Inr tlp, w1)"
    and "payment =
          \<lparr>userId = uid, paymentId = tl_id tlp, amount = req_amount pd,
           currency = toUpperCase (req_currency pd), status = mapPaymentStatus tlp,
           reference = req_reference pd,
           createdAt = toISOString env (Date_now env (clock_reads w1)),
           updatedAt = toISOString env (Date_now env (Suc (clock_reads w1))),
           paymentLink = hosted_payments_page_url tlp, trueLayerData = Some tlp,
           statusMessage = None, canRetry = None\<rparr>"
  shows "post_payments env (Some uid) pd w
     = (case table_put env payment of
          None \<Rightarrow>
            (Json 201 payment,
             w1\<lparr>clock_reads := Suc (Suc (clock_reads w1)),
                payments_table := (payments_table w1)((uid, tl_id tlp) \<mapsto> payment)\<rparr>)
        | Some e \<Rightarrow>
            (JsonError 500 ''Server error''
               (if truthy (message e) then message e else ''Failed to create payment''),
             w1\<lparr>clock_reads := Suc (Suc (clock_reads w1))\<rparr>))"
  using assms
  by (simp add: post_payments_def getUserId_def Let_def now_def paymentsRepo_createPayment_def
        split: option.splits)

subsection \<open>Binary64 products\<close>

lemma bitlen_numeral:
  "bitlen (numeral (Num.Bit0 n)) = Suc (bitlen (numeral n))"
  "bitlen (numeral (Num.Bit1 n)) = Suc (bitlen (numeral n))"
  "bitlen (numeral Num.One) = 1" "bitlen 0 = 0" "bitlen 1 = 1" "bitlen (Suc 0) = 1"
proof -
  have a: "(numeral (Num.Bit0 n) :: nat) div 2 = numeral n" by simp
  have b: "(numeral (Num.Bit1 n) :: nat) div 2 = numeral n" by simp
  show "bitlen (numeral (Num.Bit0 n)) = Suc (bitlen (numeral n))"
    by (subst bitlen.simps) (simp only: a, simp)
  show "bitlen (numeral (Num.Bit1 n)) = Suc (bitlen (numeral n))"
    by (subst bitlen.simps) (simp only: b, simp)
  show "bitlen 0 = 0" by (simp add: bitlen.simps)
  show "bitlen 1 = 1" by (subst bitlen.simps, simp, subst bitlen.simps, simp)
  then show "bitlen (numeral Num.One) = 1" "bitlen (Suc 0) = 1" by simp_all
qed

lemma floor_numeral_div:
  "\<lfloor>(numeral a :: rat) / numeral b\<rfloor> = numeral a div numeral b"
  "\<lceil>(numeral a :: rat) / numeral b\<rceil> = - ((- numeral a) div numeral b)"
  using floor_divide_of_int_eq [of "numeral a" "numeral b", where ?'a = rat]
        floor_divide_of_int_eq [of "- numeral a" "numeral b", where ?'a = rat]
  by (simp_all add: ceiling_def)

lemmas double_eval = round_double_def floor_log2_def Let_def bitlen_numeral pow2_def
  round_half_even_def floor_numeral_div

lemma double_of_19_99: "round_double (1999 / 100) = Fin (5626684784446013 / 2 ^ 48)"
  by (simp add: double_eval)

lemma times_19_99:
  "times_number (Fin (5626684784446013 / 2 ^ 48)) (Fin 100) = Fin (8791694975696895 / 2 ^ 42)"
  by (simp add: double_eval)

lemma bitlen_le: "n < 2 ^ k \<Longrightarrow> bitlen n \<le> k"
proof (induction k arbitrary: n)
  case 0
  then show ?case by (simp add: bitlen.simps)
next
  case (Suc k)
  show ?case
  proof (cases "n = 0")
    case True
    then show ?thesis by (simp add: bitlen.simps)
  next
    case False
    have "n div 2 < 2 ^ k" using Suc.prems by simp
    then have "bitlen (n div 2) \<le> k" by (rule Suc.IH)
    then show ?thesis using False by (subst bitlen.simps) simp
  qed
qed

lemma bitlen_pos: "0 < n \<Longrightarrow> 0 < bitlen n"
  by (subst bitlen.simps) simp

lemma bitlen_bounds: "0 < n \<Longrightarrow> 2 ^ (bitlen n - 1) \<le> n \<and> n < 2 ^ bitlen n"
proof (induction n rule: less_induct)
  case (less n)
  show ?case
  proof (cases "n = 1")
    case True
    then show ?thesis by (simp add: bitlen_numeral)
  next
    case False
    with less.prems have h: "0 < n div 2" "n div 2 < n" by auto
    have ih: "2 ^ (bitlen (n div 2) - 1) \<le> n div 2 \<and> n div 2 < 2 ^ bitlen (n div 2)"
      using less.IH [OF h(2) h(1)] .
    have b: "bitlen n = Suc (bitlen (n div 2))"
      using less.prems by (subst bitlen.simps) simp
    have p: "0 < bitlen (n div 2)" using h(1) by (rule bitlen_pos)
    then have s: "2 ^ (bitlen n - 1) = 2 * 2 ^ (bitlen (n div 2) - 1)"
      by (cases "bitlen (n div 2)") (simp_all add: b)
    have "2 * 2 ^ (bitlen (n div 2) - 1) \<le> 2 * (n div 2)" using ih by simp
    also have "\<dots> \<le> n" by simp
    finally have "2 * 2 ^ (bitlen (n div 2) - 1) \<le> n" .
    then have lo: "2 ^ (bitlen n - 1) \<le> n" unfolding s .
    have "n < 2 * (n div 2) + 2" by presburger
    also have "\<dots> \<le> 2 * 2 ^ bitlen (n div 2)" using ih by simp
    finally have hi: "n < 2 ^ bitlen n" by (simp add: b)
    show ?thesis using lo hi by simp
  qed
qed

lemma floor_log2_bounds:
  assumes "0 < a"
  shows "pow2 (floor_log2 a) \<le> a \<and> a < pow2 (floor_log2 a + 1)"
proof (cases "1 \<le> a")
  case True
  define m where "m = nat \<lfloor>a\<rfloor>"
  have m1: "0 < m" unfolding m_def using True by simp
  have ma: "rat_of_nat m \<le> a" "a < rat_of_nat m + 1"
    unfolding m_def using True by (simp_all add: of_nat_nat) linarith+
  note b = bitlen_bounds [OF m1]
  have bp: "0 < bitlen m" using m1 by (rule bitlen_pos)
  have fl: "floor_log2 a = int (bitlen m) - 1"
    using True by (simp add: floor_log2_def m_def)
  have lo: "pow2 (int (bitlen m) - 1) = 2 ^ (bitlen m - 1)"
    using bp by (simp add: pow2_def nat_diff_distrib')
  have hi: "pow2 (int (bitlen m) - 1 + 1) = 2 ^ bitlen m"
    by (simp add: pow2_def)
  have "(2::rat) ^ (bitlen m - 1) = rat_of_nat (2 ^ (bitlen m - 1))" by simp
  also have "\<dots> \<le> rat_of_nat m" using b by (simp only: of_nat_le_iff)
  also have "\<dots> \<le> a" by (rule ma(1))
  finally have l: "(2::rat) ^ (bitlen m - 1) \<le> a" .
  have "Suc m \<le> 2 ^ bitlen m" using b by simp
  then have "rat_of_nat (Suc m) \<le> rat_of_nat (2 ^ bitlen m)" by (simp only: of_nat_le_iff)
  then have h: "a < 2 ^ bitlen m" using ma(2) by simp
  show ?thesis unfolding fl lo hi using l h by blast
next
  case False
  define c where "c = \<lceil>1 / a\<rceil>"
  define m where "m = nat (c - 1)"
  have inv: "1 < 1 / a" using assms False by simp
  have c2: "2 \<le> c" unfolding c_def using inv by linarith
  have m1: "0 < m" unfolding m_def using c2 by simp
  have mc: "int m = c - 1" unfolding m_def using c2 by simp
  have ca: "1 / a \<le> of_int c" "of_int c - 1 < 1 / a"
    unfolding c_def by linarith+
  note b = bitlen_bounds [OF m1]
  have bp: "0 < bitlen m" using m1 by (rule bitlen_pos)
  have fl: "floor_log2 a = - int (bitlen m)"
    using False by (simp add: floor_log2_def m_def c_def)
  have lo: "pow2 (- int (bitlen m)) = 1 / 2 ^ bitlen m"
    using bp by (simp add: pow2_def)
  have hi: "pow2 (- int (bitlen m) + 1) = 1 / 2 ^ (bitlen m - 1)"
  proof (cases "bitlen m = 1")
    case True
    then show ?thesis by (simp add: pow2_def)
  next
    case False
    with bp have "1 < bitlen m" by simp
    then have "nat (int (bitlen m) - 1) = bitlen m - 1" by simp
    with \<open>1 < bitlen m\<close> show ?thesis by (simp add: pow2_def)
  qed
  have "m < 2 ^ bitlen m" using b by blast
  then have "int m < int (2 ^ bitlen m)" by (simp only: of_nat_less_iff)
  then have "int m < 2 ^ bitlen m" by simp
  then have "c \<le> 2 ^ bitlen m" using mc by linarith
  then have "rat_of_int c \<le> rat_of_int (2 ^ bitlen m)" by (simp only: of_int_le_iff)
  then have "rat_of_int c \<le> 2 ^ bitlen m" by simp
  with ca(1) have "1 / a \<le> 2 ^ bitlen m" by (rule order_trans)
  then have l: "1 / 2 ^ bitlen m \<le> a"
    using assms by (simp add: field_simps)
  have "(2::rat) ^ (bitlen m - 1) = rat_of_nat (2 ^ (bitlen m - 1))" by simp
  also have "\<dots> \<le> rat_of_nat m" using b by (simp only: of_nat_le_iff)
  also have "rat_of_nat m = of_int c - 1" using mc by (metis of_int_1 of_int_diff of_int_of_nat_eq)
  also have "\<dots> < 1 / a" by (rule ca(2))
  finally have "2 ^ (bitlen m - 1) < 1 / a" .
  then have h: "a < 1 / 2 ^ (bitlen m - 1)"
    using assms by (simp add: field_simps)
  show ?thesis unfolding fl lo hi using l h by blast
qed

lemma round_half_even_of_int: "round_half_even (of_int k) = k"
  by (simp add: round_half_even_def)

lemma round_double_whole:
  assumes "0 < m" "m < 2 ^ 53"
  shows "round_double (of_int m) = Fin (of_int m)"
proof -
  define b where "b = bitlen (nat m)"
  have "nat m < 2 ^ 53" using assms by (simp add: nat_less_iff)
  then have b53: "b \<le> 53" unfolding b_def by (rule bitlen_le)
  have b1: "0 < b" unfolding b_def using assms(1) by (simp add: bitlen_pos)
  have one: "(1::rat) \<le> of_int m" using assms(1) by simp
  have fl: "floor_log2 (of_int m) = int b - 1"
    using one by (simp add: floor_log2_def b_def)
  have e: "max (floor_log2 (of_int m)) (- 1022) = int b - 1"
    using b1 by (simp add: fl)
  have u: "pow2 (int b - 1 - 52) = 1 / 2 ^ (53 - b)"
  proof (cases "b = 53")
    case True
    then show ?thesis by (simp add: pow2_def)
  next
    case False
    then have "b < 53" using b53 by simp
    then have "nat (53 - int b) = 53 - b" by simp
    with \<open>b < 53\<close> show ?thesis by (simp add: pow2_def)
  qed
  have q: "(of_int m :: rat) / (1 / 2 ^ (53 - b)) = of_int (m * 2 ^ (53 - b))"
    by simp
  have rh: "round_half_even (of_int (m * 2 ^ (53 - b))) = m * 2 ^ (53 - b)"
    by (rule round_half_even_of_int)
  have r: "(of_int (m * 2 ^ (53 - b)) :: rat) * (1 / 2 ^ (53 - b)) = of_int m"
    by simp
  have "(of_int m :: rat) < 2 ^ 53" using assms(2) by (metis of_int_less_iff of_int_numeral of_int_power)
  also have "(2 ^ 53 :: rat) \<le> 2 ^ 1024" by simp
  finally have small: "\<not> pow2 1024 \<le> (of_int m :: rat)" by (simp add: pow2_def)
  have pos: "(0::rat) < of_int m" "(of_int m :: rat) \<noteq> 0" "\<bar>of_int m :: rat\<bar> = of_int m"
    using assms(1) by simp_all
  show ?thesis
    unfolding round_double_def Let_def pos(3) e u q rh r
    using small pos(1,2) by simp
qed

lemma whole_amount_exact:
  assumes "0 < n" "100 * n < 2 ^ 53"
  shows "times_number (Fin (of_int n)) (Fin 100) = Fin (100 * of_int n)"
proof -
  have "round_double (of_int (100 * n)) = Fin (of_int (100 * n))"
    using assms by (intro round_double_whole) simp_all
  then show ?thesis by (simp add: mult.commute)
qed

section \<open>Properties\<close>

text \<open>
  C1. The status-mapping function returns the gateway's status verbatim: for every
  member \<open>s\<close> of the enumeration and every \<^verbatim>\<open>failure_reason\<close> (present or absent)
  carried by the response, the mapped local status is \<open>s\<close> itself; in particular
  \<open>failed\<close> stays \<open>failed\<close> whatever the reason.
\<close>

theorem mapPaymentStatus_verbatim:
  "mapPaymentStatus r = tl_status r
   \<and> mapPaymentStatus (r\<lparr>tl_status := s, failure_reason := fr\<rparr>) = s
   \<and> mapPaymentStatus (r\<lparr>tl_status := failed, failure_reason := fr\<rparr>) = failed"
  by (simp add: mapPaymentStatus_def)



text \<open>
  C3. Reconciliation exhaustion. Let the token acquisition succeed. If the gateway's
  answers to all four fetches of the invocation map to the stored status, the route
  does not fail: it answers 200 (a success, not an error object) with the unchanged
  payment on which \<open>statusMessage\<close> is set and \<open>canRetry\<close> is true, after exactly four
  calls of \<open>getPayment\<close>, and the table is as before.
\<close>

theorem reconcile_exhausts:
  assumes tok: "\<forall>n u ps. \<exists>r. token_endpoint env n u ps = Inr r"
    and uid: "truthy uid"
    and stored: "payments_table w (uid, pid) = Some payment"
    and same: "\<forall>j<4. \<exists>r'. gateway_get env (length (gets w) + j) (''/v3/payments/'' @ pid) = Inr r'
                  \<and> mapPaymentStatus r' = status payment"
  shows "fst (refresh_status env (Some uid) pid w)
           = Json 200 (payment\<lparr>statusMessage := Some
                ''Payment status is still processing. It may take a few moments to update.'',
                canRetry := Some True\<rparr>)
       \<and> getPayment_calls (snd (refresh_status env (Some uid) pid w)) = getPayment_calls w + 4
       \<and> payments_table (snd (refresh_status env (Some uid) pid w)) = payments_table w"
proof -
  let ?p = "poll env pid (status payment) 1 None w"
  have "\<exists>r. fst ?p = Inr (Some r) \<and> tl_status r = status payment
       \<and> getPayment_calls (snd ?p) = getPayment_calls w + Suc 3
       \<and> sleeps (snd ?p) = sleeps w @ replicate 3 delayMs
       \<and> payments_table (snd ?p) = payments_table w"
  proof (rule poll_exhausts [OF tok])
    show "1 + 3 = maxAttempts" by (simp add: maxAttempts_def)
    show "\<forall>j\<le>3. \<exists>r'. gateway_get env (length (gets w) + j) (''/v3/payments/'' @ pid) = Inr r'
                  \<and> tl_status r' = status payment"
      using same by (simp add: mapPaymentStatus_def)
  qed
  then obtain r where r: "fst ?p = Inr (Some r)" "tl_status r = status payment"
       "getPayment_calls (snd ?p) = getPayment_calls w + 4"
       "payments_table (snd ?p) = payments_table w"
    by auto
  from r(1) have p: "?p = (Inr (Some r), snd ?p)" by (simp add: prod_eq_iff)
  have m: "mapPaymentStatus r = status payment" using r(2) by (simp add: mapPaymentStatus_def)
  show ?thesis
    using r(3,4) by (simp add: refresh_status_unchanged [OF uid stored p m])
qed

theorem reconcile_exhausts_witness:
  "fst (refresh_status
          (sample_env (\<lambda>n. Inr (sample_token ''token-A''))
             (\<lambda>n. Inr (sample_response authorization_required)) (Inl (GatewayError None)))
          (Some ''user-1'') ''pay-1'' sample_world)
     = Json 200 (sample_payment\<lparr>statusMessage := Some
          ''Payment status is still processing. It may take a few moments to update.'',
          canRetry := Some True\<rparr>)
   \<and> getPayment_calls (snd (refresh_status
          (sample_env (\<lambda>n. Inr (sample_token ''token-A''))
             (\<lambda>n. Inr (sample_response authorization_required)) (Inl (GatewayError None)))
          (Some ''user-1'') ''pay-1'' sample_world)) = 4"
  using reconcile_exhausts [where uid = "''user-1''" and pid = "''pay-1''"
      and w = sample_world and payment = sample_payment
      and env = "sample_env (\<lambda>n. Inr (sample_token ''token-A''))
             (\<lambda>n. Inr (sample_response authorization_required)) (Inl (GatewayError None))"]
  by (simp add: sample_env_def sample_world_def initial_world_def sample_payment_def
        sample_response_def mapPaymentStatus_def truthy_def)

text \<open>
  C4, as stated, fails: a hard error of \<open>getPayment\<close> does not always end the loop.
  Here the first fetch is rejected by the gateway, so \<open>getPayment\<close> throws on attempt
  1; the loop nevertheless makes a second call, whose answer it returns with a 200.
\<close>

theorem hard_error_swallowed_counterexample:
  "fst (getPayment
          (sample_env (\<lambda>n. Inr (sample_token ''token-A''))
             (\<lambda>n. if n = 0 then Inl (GatewayError None) else Inr (sample_response executed))
             (Inl (GatewayError None)))
          ''pay-1'' sample_world)
     = Inl (Error ''Failed to fetch payment details'')
   \<and> getPayment_calls (snd (refresh_status
          (sample_env (\<lambda>n. Inr (sample_token ''token-A''))
             (\<lambda>n. if n = 0 then Inl (GatewayError None) else Inr (sample_response executed))
             (Inl (GatewayError None)))
          (Some ''user-1'') ''pay-1'' sample_world)) = 2
   \<and> fst (refresh_status
          (sample_env (\<lambda>n. Inr (sample_token ''token-A''))
             (\<lambda>n. if n = 0 then Inl (GatewayError None) else Inr (sample_response executed))
             (Inl (GatewayError None)))
          (Some ''user-1'') ''pay-1'' sample_world)
     = Json 200 (sample_payment\<lparr>status := executed,
          trueLayerData := Some (sample_response executed), updatedAt := ''T+3''\<rparr>)"
  by (simp add: poll_eval sample_defs hex_digit_def)

text \<open>
  C4, amended. A hard error of \<open>getPayment\<close> ends the loop only on the last attempt:
  on attempt 4 the loop stops with that error and makes no further call, and the route
  answers 500 without touching the table; on an attempt before the fourth the error is
  swallowed, the loop sleeps 800 ms and goes on with the next attempt, keeping the
  state it had fetched before.
\<close>

theorem hard_error_last_attempt_only:
  assumes "fst (getPayment env pid w) = Inl e"
  shows "(attempt = maxAttempts \<longrightarrow>
            poll env pid orig attempt tlp w = (Inl e, snd (getPayment env pid w))
            \<and> getPayment_calls (snd (poll env pid orig attempt tlp w)) = Suc (getPayment_calls w))
       \<and> (attempt < maxAttempts \<longrightarrow>
            poll env pid orig attempt tlp w
              = poll env pid orig (attempt + 1) tlp (sleep delayMs (snd (getPayment env pid w))))
       \<and> (truthy uid \<and> payments_table w0 (uid, pid) = Some payment
            \<and> fst (poll env pid (status payment) 1 None w0) = Inl e0 \<longrightarrow>
            fst (refresh_status env (Some uid) pid w0)
              = JsonError 500 ''Server error'' ''Failed to refresh payment status from TrueLayer''
            \<and> payments_table (snd (refresh_status env (Some uid) pid w0)) = payments_table w0)"
proof -
  have gp: "getPayment env pid w = (Inl e, snd (getPayment env pid w))"
    using assms by (simp add: prod_eq_iff)
  have last: "poll env pid orig attempt tlp w = (Inl e, snd (getPayment env pid w))"
    if "attempt = maxAttempts"
    using that by (subst poll.simps, subst gp) simp
  have earlier: "poll env pid orig attempt tlp w
              = poll env pid orig (attempt + 1) tlp (sleep delayMs (snd (getPayment env pid w)))"
    if "attempt < maxAttempts"
    using that by (subst poll.simps, subst gp) simp
  have route: "fst (refresh_status env (Some uid) pid w0)
              = JsonError 500 ''Server error'' ''Failed to refresh payment status from TrueLayer''
            \<and> payments_table (snd (refresh_status env (Some uid) pid w0)) = payments_table w0"
    if "truthy uid" "payments_table w0 (uid, pid) = Some payment"
       "fst (poll env pid (status payment) 1 None w0) = Inl e0"
  proof -
    have p: "poll env pid (status payment) 1 None w0
               = (Inl e0, snd (poll env pid (status payment) 1 None w0))"
      using that(3) by (simp add: prod_eq_iff)
    show ?thesis
      using poll_table [of env pid "status payment" 1 None w0]
      by (simp add: refresh_status_thrown [OF that(1,2) p])
  qed
  show ?thesis
    using last earlier route getPayment_frame(1) [of env pid w] by simp
qed

theorem hard_error_last_attempt_only_witness:
  "poll (sample_env (\<lambda>n. Inr (sample_token ''token-A'')) (\<lambda>n. Inl (GatewayError None))
           (Inl (GatewayError None)))
      ''pay-1'' authorization_required 4 None sample_world
     = (Inl (Error ''Failed to fetch payment details''),
        snd (getPayment (sample_env (\<lambda>n. Inr (sample_token ''token-A''))
               (\<lambda>n. Inl (GatewayError None)) (Inl (GatewayError None))) ''pay-1'' sample_world))
   \<and> poll (sample_env (\<lambda>n. Inr (sample_token ''token-A'')) (\<lambda>n. Inl (GatewayError None))
           (Inl (GatewayError None)))
      ''pay-1'' authorization_required 1 None sample_world
     = poll (sample_env (\<lambda>n. Inr (sample_token ''token-A'')) (\<lambda>n. Inl (GatewayError None))
           (Inl (GatewayError None)))
      ''pay-1'' authorization_required (1 + 1) None
        (sleep 800 (snd (getPayment (sample_env (\<lambda>n. Inr (sample_token ''token-A''))
               (\<lambda>n. Inl (GatewayError None)) (Inl (GatewayError None))) ''pay-1'' sample_world)))
   \<and> fst (refresh_status (sample_env (\<lambda>n. Inr (sample_token ''token-A''))
               (\<lambda>n. Inl (GatewayError None)) (Inl (GatewayError None)))
             (Some ''user-1'') ''pay-1'' sample_world)
     = JsonError 500 ''Server error'' ''Failed to refresh payment status from TrueLayer''"
proof -
  let ?E = "sample_env (\<lambda>n. Inr (sample_token ''token-A'')) (\<lambda>n. Inl (GatewayError None))
              (Inl (GatewayError None))"
  have g: "fst (getPayment ?E ''pay-1'' sample_world) = Inl (Error ''Failed to fetch payment details'')"
    by (simp add: service_defs sample_defs)
  have u: "truthy ''user-1''" by (simp add: truthy_def)
  have s: "payments_table sample_world (''user-1'', ''pay-1'') = Some sample_payment"
    by (simp add: sample_defs)
  have p: "fst (poll ?E ''pay-1'' (status sample_payment) 1 None sample_world)
             = Inl (Error ''Failed to fetch payment details'')"
    by (simp add: poll_eval sample_defs)
  show ?thesis
    using hard_error_last_attempt_only [OF g, where attempt = 4 and uid = "''user-1''"
            and ?w0.0 = sample_world and payment = sample_payment and orig = authorization_required
            and tlp = None and ?e0.0 = "Error ''Failed to fetch payment details''"]
          hard_error_last_attempt_only [OF g, where attempt = 1 and uid = "''user-1''"
            and ?w0.0 = sample_world and payment = sample_payment and orig = authorization_required
            and tlp = None and ?e0.0 = "Error ''Failed to fetch payment details''"]
          u s p
    by (simp add: maxAttempts_def delayMs_def)
qed

text \<open>
  C9. The refresh route writes the stored record only when the status changed. If
  every answer the gateway gives to a fetch of this invocation maps to the stored
  status, the table after the call is the table before it: no stored field changes,
  and the advisory \<open>statusMessage\<close> and \<open>canRetry\<close> exist only on the answer. In every
  case the table is either unchanged or differs in this one record, whose status is a
  new one, whose \<open>trueLayerData\<close> is the fetched state and whose \<open>updatedAt\<close> is the
  clock reading taken by the write.
\<close>

theorem reconcile_writes_only_on_change:
  assumes uid: "truthy uid" and stored: "payments_table w (uid, pid) = Some payment"
  shows "((\<forall>n r. length (gets w) \<le> n
               \<and> n < length (gets (snd (refresh_status env (Some uid) pid w)))
               \<and> gateway_get env n (''/v3/payments/'' @ pid) = Inr r
               \<longrightarrow> mapPaymentStatus r = status payment)
          \<longrightarrow> payments_table (snd (refresh_status env (Some uid) pid w)) = payments_table w)
       \<and> (payments_table (snd (refresh_status env (Some uid) pid w)) = payments_table w
          \<or> (\<exists>r. mapPaymentStatus r \<noteq> status payment
                \<and> payments_table (snd (refresh_status env (Some uid) pid w))
                    = (payments_table w)((uid, pid) \<mapsto>
                         payment\<lparr>status := mapPaymentStatus r,
                           updatedAt := toISOString env (Date_now env
                              (clock_reads (snd (poll env pid (status payment) 1 None w)))),
                           trueLayerData := Some r\<rparr>)))"
proof -
  let ?p = "poll env pid (status payment) 1 None w"
  obtain res w1 where p: "?p = (res, w1)" by (cases ?p)
  have t: "payments_table w1 = payments_table w"
    using poll_table [of env pid "status payment" 1 None w] p by simp
  show ?thesis
  proof (cases res)
    case (Inl e)
    show ?thesis
      using t by (simp add: refresh_status_thrown [OF uid stored p [unfolded Inl]])
  next
    case (Inr fetched)
    show ?thesis
    proof (cases fetched)
      case None
      show ?thesis
        using t by (simp add: refresh_status_none [OF uid stored p [unfolded Inr None]])
    next
      case (Some r)
      note p' = p [unfolded Inr Some]
      show ?thesis
      proof (cases "mapPaymentStatus r = status payment")
        case True
        show ?thesis
          using t by (simp add: refresh_status_unchanged [OF uid stored p' True])
      next
        case False
        note rs = refresh_status_changed [OF uid stored p' False]
        have "\<exists>n. length (gets w) \<le> n \<and> n < length (gets w1)
                 \<and> gateway_get env n (''/v3/payments/'' @ pid) = Inr r"
          using poll_fetched_here [of env pid "status payment" 1 None w r] p' by simp
        then obtain n where n: "length (gets w) \<le> n" "n < length (gets w1)"
            "gateway_get env n (''/v3/payments/'' @ pid) = Inr r" by blast
        have first: "\<not> (\<forall>n r. length (gets w) \<le> n
               \<and> n < length (gets (snd (refresh_status env (Some uid) pid w)))
               \<and> gateway_get env n (''/v3/payments/'' @ pid) = Inr r
               \<longrightarrow> mapPaymentStatus r = status payment)"
          using n False by (auto simp: rs)
        have second: "payments_table (snd (refresh_status env (Some uid) pid w))
                    = (payments_table w)((uid, pid) \<mapsto>
                         payment\<lparr>status := mapPaymentStatus r,
                           updatedAt := toISOString env (Date_now env
                              (clock_reads (snd (poll env pid (status payment) 1 None w)))),
                           trueLayerData := Some r\<rparr>)"
        proof -
          have w1: "snd (poll env pid (status payment) 1 None w) = w1" using p by simp
          show ?thesis unfolding rs w1 using t stored by simp
        qed
        show ?thesis
          using first second False by blast
      qed
    qed
  qed
qed

theorem reconcile_writes_only_on_change_witness:
  "payments_table (snd (refresh_status
          (sample_env (\<lambda>n. Inr (sample_token ''token-A''))
             (\<lambda>n. Inr (sample_response authorization_required)) (Inl (GatewayError None)))
          (Some ''user-1'') ''pay-1'' sample_world))
     = payments_table sample_world
   \<and> (\<exists>r. mapPaymentStatus r \<noteq> status sample_payment
         \<and> payments_table (snd (refresh_status
              (sample_env (\<lambda>n. Inr (sample_token ''token-A''))
                 (\<lambda>n. Inr (sample_response executed)) (Inl (GatewayError None)))
              (Some ''user-1'') ''pay-1'' sample_world))
           = (payments_table sample_world)((''user-1'', ''pay-1'') \<mapsto>
                sample_payment\<lparr>status := mapPaymentStatus r, updatedAt := ''T+1'',
                  trueLayerData := Some r\<rparr>))"
proof -
  let ?E1 = "sample_env (\<lambda>n. Inr (sample_token ''token-A''))
             (\<lambda>n. Inr (sample_response authorization_required)) (Inl (GatewayError None))"
  let ?E2 = "sample_env (\<lambda>n. Inr (sample_token ''token-A''))
             (\<lambda>n. Inr (sample_response executed)) (Inl (GatewayError None))"
  have u: "truthy ''user-1''" by (simp add: truthy_def)
  have s: "payments_table sample_world (''user-1'', ''pay-1'') = Some sample_payment"
    by (simp add: sample_defs)
  have same: "\<forall>n r. length (gets sample_world) \<le> n
        \<and> n < length (gets (snd (refresh_status ?E1 (Some ''user-1'') ''pay-1'' sample_world)))
        \<and> gateway_get ?E1 n (''/v3/payments/'' @ ''pay-1'') = Inr r
        \<longrightarrow> mapPaymentStatus r = status sample_payment"
    by (auto simp: sample_env_def sample_response_def sample_payment_def mapPaymentStatus_def)
  have changed: "payments_table (snd (refresh_status ?E2 (Some ''user-1'') ''pay-1'' sample_world))
                   \<noteq> payments_table sample_world"
  proof
    assume "payments_table (snd (refresh_status ?E2 (Some ''user-1'') ''pay-1'' sample_world))
              = payments_table sample_world"
    then have "payments_table (snd (refresh_status ?E2 (Some ''user-1'') ''pay-1'' sample_world))
                 (''user-1'', ''pay-1'')
        = payments_table sample_world (''user-1'', ''pay-1'')" by simp
    then show False
      by (simp add: poll_eval sample_defs hex_digit_def)
  qed
  have clock: "toISOString ?E2 (Date_now ?E2
            (clock_reads (snd (poll ?E2 ''pay-1'' (status sample_payment) 1 None sample_world))))
          = ''T+1''"
    by (simp add: poll_eval sample_defs hex_digit_def)
  have first: "payments_table (snd (refresh_status ?E1 (Some ''user-1'') ''pay-1'' sample_world))
                 = payments_table sample_world"
    using reconcile_writes_only_on_change [OF u s, where env = ?E1] same by blast
  have second: "\<exists>r. mapPaymentStatus r \<noteq> status sample_payment
         \<and> payments_table (snd (refresh_status ?E2 (Some ''user-1'') ''pay-1'' sample_world))
           = (payments_table sample_world)((''user-1'', ''pay-1'') \<mapsto>
                sample_payment\<lparr>status := mapPaymentStatus r, updatedAt := ''T+1'',
                  trueLayerData := Some r\<rparr>)"
    using reconcile_writes_only_on_change [OF u s, where env = ?E2] changed
    unfolding clock by blast
  show ?thesis using first second by blast
qed

text \<open>
  C5. Every call of \<open>createPayment\<close> draws two UUIDs, the first for the user id of the
  body and the second as the idempotency key, so exactly one key per call. The signing
  library is called exactly once, for \<open>POST /v3/payments\<close>, with the header subset
  \<open>Idempotency-Key = key\<close>; and the request the call sends (at most one; exactly one
  when the token is acquired) is a POST to \<open>/v3/payments\<close> that carries this same key
  as its only \<open>Idempotency-Key\<close> header, next to the signature computed over it.
\<close>

theorem createPayment_one_idempotency_key:
  "uuid_draws (snd (createPayment env paymentData w)) = uuid_draws w + 2
   \<and> (\<exists>args. sign_calls (snd (createPayment env paymentData w)) = sign_calls w @ [args]
         \<and> sa_method args = ''POST'' \<and> sa_path args = ''/v3/payments''
         \<and> sa_headers args = [(''Idempotency-Key'', randomUUID env (Suc (uuid_draws w)))]
         \<and> (posts (snd (createPayment env paymentData w)) = posts w
            \<or> (\<exists>rq. posts (snd (createPayment env paymentData w)) = posts w @ [rq]
                  \<and> rq_path rq = ''/v3/payments''
                  \<and> map_of (rq_headers rq) ''Idempotency-Key''
                      = Some (randomUUID env (Suc (uuid_draws w)))
                  \<and> length (filter (\<lambda>h. fst h = ''Idempotency-Key'') (rq_headers rq)) = 1
                  \<and> map_of (rq_headers rq) ''Tl-Signature'' = Some (tl_sign env args))))
   \<and> ((\<forall>n u ps. \<exists>r. token_endpoint env n u ps = Inr r)
        \<longrightarrow> length (posts (snd (createPayment env paymentData w))) = Suc (length (posts w)))"
proof -
  let ?body = "build_requestBody paymentData (randomUUID env (uuid_draws w))"
  let ?key = "randomUUID env (Suc (uuid_draws w))"
  let ?args = "\<lparr>sa_kid = kid env, sa_privateKeyPem = privateKeyPem env,
                  sa_method = ''POST'', sa_path = ''/v3/payments'',
                  sa_headers = [(''Idempotency-Key'', ?key)],
                  sa_body = JSON_stringify env ?body\<rparr>"
  let ?w3 = "w\<lparr>uuid_draws := Suc (Suc (uuid_draws w)), sign_calls := sign_calls w @ [?args]\<rparr>"
  note cp = createPayment_unfold [of env paymentData w]
  have part12: "uuid_draws (snd (createPayment env paymentData w)) = uuid_draws w + 2
   \<and> (\<exists>args. sign_calls (snd (createPayment env paymentData w)) = sign_calls w @ [args]
         \<and> sa_method args = ''POST'' \<and> sa_path args = ''/v3/payments''
         \<and> sa_headers args = [(''Idempotency-Key'', ?key)]
         \<and> (posts (snd (createPayment env paymentData w)) = posts w
            \<or> (\<exists>rq. posts (snd (createPayment env paymentData w)) = posts w @ [rq]
                  \<and> rq_path rq = ''/v3/payments''
                  \<and> map_of (rq_headers rq) ''Idempotency-Key'' = Some ?key
                  \<and> length (filter (\<lambda>h. fst h = ''Idempotency-Key'') (rq_headers rq)) = 1
                  \<and> map_of (rq_headers rq) ''Tl-Signature'' = Some (tl_sign env args))))"
  proof (cases rule: getAccessToken_cases [of env ?w3])
    case (thrown e w1)
    have "sign_calls (snd (createPayment env paymentData w)) = sign_calls w @ [?args]
        \<and> posts (snd (createPayment env paymentData w)) = posts w
        \<and> uuid_draws (snd (createPayment env paymentData w)) = uuid_draws w + 2"
      using thrown by (simp add: cp axios_post_def)
    then show ?thesis by (intro conjI exI [of _ ?args]) simp_all
  next
    case (token t w1)
    let ?rq = "\<lparr>rq_path = ''/v3/payments'', rq_body = ?body,
                 rq_headers = [(''Content-Type'', ''application/json''),
                               (''Tl-Signature'', tl_sign env ?args),
                               (''Idempotency-Key'', ?key),
                               (''Authorization'', ''Bearer '' @ t)]\<rparr>"
    have "sign_calls (snd (createPayment env paymentData w)) = sign_calls w @ [?args]
        \<and> posts (snd (createPayment env paymentData w)) = posts w @ [?rq]
        \<and> uuid_draws (snd (createPayment env paymentData w)) = uuid_draws w + 2"
      using token by (simp add: cp axios_post_def Let_def split: sum.splits)
    then show ?thesis
      by (intro conjI exI [of _ ?args] disjI2 exI [of _ ?rq]) simp_all
  qed
  have part3: "length (posts (snd (createPayment env paymentData w))) = Suc (length (posts w))"
    if tok: "\<forall>n u ps. \<exists>r. token_endpoint env n u ps = Inr r"
  proof (cases rule: getAccessToken_cases [of env ?w3])
    case (thrown e w1)
    then show ?thesis using getAccessToken_ok [OF tok, of ?w3] by simp
  next
    case (token t w1)
    then show ?thesis
      by (simp add: cp axios_post_def Let_def split: sum.splits)
  qed
  show ?thesis using part12 part3 by blast
qed

theorem createPayment_one_idempotency_key_witness:
  "uuid_draws (snd (createPayment (sample_env (\<lambda>n. Inr (sample_token ''token-A''))
          (\<lambda>n. Inl (GatewayError None)) (Inr (sample_response authorization_required)))
        sample_request initial_world)) = 2
   \<and> length (posts (snd (createPayment (sample_env (\<lambda>n. Inr (sample_token ''token-A''))
          (\<lambda>n. Inl (GatewayError None)) (Inr (sample_response authorization_required)))
        sample_request initial_world))) = 1
   \<and> map sa_headers (sign_calls (snd (createPayment (sample_env (\<lambda>n. Inr (sample_token ''token-A''))
          (\<lambda>n. Inl (GatewayError None)) (Inr (sample_response authorization_required)))
        sample_request initial_world))) = [[(''Idempotency-Key'', ''uuid-1'')]]
   \<and> map (\<lambda>rq. map_of (rq_headers rq) ''Idempotency-Key'')
        (posts (snd (createPayment (sample_env (\<lambda>n. Inr (sample_token ''token-A''))
          (\<lambda>n. Inl (GatewayError None)) (Inr (sample_response authorization_required)))
        sample_request initial_world))) = [Some ''uuid-1'']"
proof -
  let ?E = "sample_env (\<lambda>n. Inr (sample_token ''token-A''))
          (\<lambda>n. Inl (GatewayError None)) (Inr (sample_response authorization_required))"
  have tok: "\<forall>n u ps. \<exists>r. token_endpoint ?E n u ps = Inr r"
    by (simp add: sample_env_def)
  have ev: "map sa_headers (sign_calls (snd (createPayment ?E sample_request initial_world)))
              = [[(''Idempotency-Key'', ''uuid-1'')]]
          \<and> map (\<lambda>rq. map_of (rq_headers rq) ''Idempotency-Key'')
               (posts (snd (createPayment ?E sample_request initial_world))) = [Some ''uuid-1'']"
    by (simp add: createPayment_unfold axios_post_def token_defs Let_def sample_defs hex_digit_def)
  show ?thesis
    using createPayment_one_idempotency_key [of ?E sample_request initial_world] tok ev
    by (simp add: initial_world_def)
qed

text \<open>
  C6. Token reuse. (1) Called while a token is cached (a non-empty string) and the clock
  reads a time before the cached expiry, \<open>getAccessToken\<close> returns the cached token
  and starts no exchange. (2) Called without a valid cached token, with the exchange
  succeeding, it caches the new token with the expiry \<open>now + (expires_in - 60) * 1000\<close>
  milliseconds, \<open>now\<close> being the clock reading taken when the answer is stored: a fixed
  60 seconds strictly before the expiry the gateway reports. (3) So two calls in
  sequence, the second reading the clock at most one second after the first stored a
  four-hour token, make exactly one exchange.
\<close>

theorem token_reuse:
  "(accessToken w = Some t \<and> truthy t \<and> Date_now env (clock_reads w) < tokenExpiresAt w
      \<longrightarrow> fst (getAccessToken env w) = Inr t
          \<and> exchanges (snd (getAccessToken env w)) = exchanges w)
   \<and> (\<not> cache_valid env w
        \<and> token_endpoint env (exchanges w) (token_url env) (token_params env) = Inr resp
      \<longrightarrow> exchanges (snd (getAccessToken env w)) = Suc (exchanges w)
          \<and> accessToken (snd (getAccessToken env w)) = Some (access_token resp)
          \<and> tokenExpiresAt (snd (getAccessToken env w))
               = Date_now env (clock_reads (snd (getAccessToken env w)) - 1)
                 + (expires_in resp - 60) * 1000
          \<and> tokenExpiresAt (snd (getAccessToken env w))
               = Date_now env (clock_reads (snd (getAccessToken env w)) - 1)
                 + expires_in resp * 1000 - 60 * 1000
          \<and> tokenExpiresAt (snd (getAccessToken env w))
               < Date_now env (clock_reads (snd (getAccessToken env w)) - 1)
                 + expires_in resp * 1000)
   \<and> (\<not> cache_valid env w
        \<and> token_endpoint env (exchanges w) (token_url env) (token_params env) = Inr resp
        \<and> truthy (access_token resp) \<and> expires_in resp = 4 * 60 * 60
        \<and> Date_now env (clock_reads (snd (getAccessToken env w)))
             \<le> Date_now env (clock_reads (snd (getAccessToken env w)) - 1) + 1000
      \<longrightarrow> fst (getAccessToken env (snd (getAccessToken env w))) = Inr (access_token resp)
          \<and> exchanges (snd (getAccessToken env (snd (getAccessToken env w)))) = exchanges w + 1)"
proof -
  have hit: "fst (getAccessToken env w) = Inr t
          \<and> exchanges (snd (getAccessToken env w)) = exchanges w"
    if "accessToken w = Some t" "truthy t" "Date_now env (clock_reads w) < tokenExpiresAt w"
    by (simp add: getAccessToken_hit [OF that])
  have miss: "exchanges (snd (getAccessToken env w)) = Suc (exchanges w)
          \<and> accessToken (snd (getAccessToken env w)) = Some (access_token resp)
          \<and> tokenExpiresAt (snd (getAccessToken env w))
               = Date_now env (clock_reads (snd (getAccessToken env w)) - 1)
                 + (expires_in resp - 60) * 1000
          \<and> tokenExpiresAt (snd (getAccessToken env w))
               = Date_now env (clock_reads (snd (getAccessToken env w)) - 1)
                 + expires_in resp * 1000 - 60 * 1000
          \<and> tokenExpiresAt (snd (getAccessToken env w))
               < Date_now env (clock_reads (snd (getAccessToken env w)) - 1)
                 + expires_in resp * 1000"
    if "\<not> cache_valid env w"
       "token_endpoint env (exchanges w) (token_url env) (token_params env) = Inr resp"
    using getAccessToken_miss [OF that] by (simp add: algebra_simps)
  have twice: "fst (getAccessToken env (snd (getAccessToken env w))) = Inr (access_token resp)
          \<and> exchanges (snd (getAccessToken env (snd (getAccessToken env w)))) = exchanges w + 1"
    if m: "\<not> cache_valid env w"
       "token_endpoint env (exchanges w) (token_url env) (token_params env) = Inr resp"
     and tr: "truthy (access_token resp)" and life: "expires_in resp = 4 * 60 * 60"
     and sec: "Date_now env (clock_reads (snd (getAccessToken env w)))
             \<le> Date_now env (clock_reads (snd (getAccessToken env w)) - 1) + 1000"
  proof -
    let ?w1 = "snd (getAccessToken env w)"
    have valid: "Date_now env (clock_reads ?w1) < tokenExpiresAt ?w1"
      using getAccessToken_miss(5) [OF m] life sec by simp
    show ?thesis
      using getAccessToken_miss(2) [OF m]
      by (simp add: getAccessToken_hit [OF getAccessToken_miss(3) [OF m] tr valid])
  qed
  show ?thesis using hit miss twice by blast
qed

theorem token_reuse_witness:
  "fst (getAccessToken (sample_env (\<lambda>n. Inr (sample_token ''token-A'')) (\<lambda>n. Inl (GatewayError None))
                          (Inl (GatewayError None)))
          (initial_world\<lparr>accessToken := Some ''token-0'', tokenExpiresAt := 5000\<rparr>))
     = Inr ''token-0''
   \<and> exchanges (snd (getAccessToken (sample_env (\<lambda>n. Inr (sample_token ''token-A''))
                          (\<lambda>n. Inl (GatewayError None)) (Inl (GatewayError None)))
          (initial_world\<lparr>accessToken := Some ''token-0'', tokenExpiresAt := 5000\<rparr>))) = 0
   \<and> tokenExpiresAt (snd (getAccessToken (sample_env (\<lambda>n. Inr (sample_token ''token-A''))
                          (\<lambda>n. Inl (GatewayError None)) (Inl (GatewayError None))) initial_world))
       = 14340000
   \<and> exchanges (snd (getAccessToken (sample_env (\<lambda>n. Inr (sample_token ''token-A''))
                          (\<lambda>n. Inl (GatewayError None)) (Inl (GatewayError None)))
         (snd (getAccessToken (sample_env (\<lambda>n. Inr (sample_token ''token-A''))
                          (\<lambda>n. Inl (GatewayError None)) (Inl (GatewayError None))) initial_world))))
       = 1"
proof -
  let ?E = "sample_env (\<lambda>n. Inr (sample_token ''token-A'')) (\<lambda>n. Inl (GatewayError None))
              (Inl (GatewayError None))"
  let ?w = "initial_world\<lparr>accessToken := Some ''token-0'', tokenExpiresAt := 5000\<rparr>"
  have h1: "accessToken ?w = Some ''token-0'' \<and> truthy ''token-0''
              \<and> Date_now ?E (clock_reads ?w) < tokenExpiresAt ?w"
    by (simp add: sample_defs truthy_def)
  have h2: "\<not> cache_valid ?E initial_world
        \<and> token_endpoint ?E (exchanges initial_world) (token_url ?E) (token_params ?E)
            = Inr (sample_token ''token-A'')"
    by (simp add: sample_defs cache_valid_def)
  have h3: "truthy (access_token (sample_token ''token-A''))
        \<and> expires_in (sample_token ''token-A'') = 4 * 60 * 60
        \<and> Date_now ?E (clock_reads (snd (getAccessToken ?E initial_world)))
             \<le> Date_now ?E (clock_reads (snd (getAccessToken ?E initial_world)) - 1) + 1000"
    by (simp add: sample_defs truthy_def token_defs token_url_def token_params_def)
  have c: "clock_reads (snd (getAccessToken ?E initial_world)) = 1"
    by (simp add: sample_defs token_defs)
  show ?thesis
    using token_reuse [where env = ?E and w = ?w and t = "''token-0''"]
          token_reuse [where env = ?E and w = initial_world and resp = "sample_token ''token-A''"]
          h1 h2 h3
    by (simp add: c) (simp add: sample_defs)
qed

text \<open>
  C7, as stated, fails: the service has no single-flight guard. Two callers that both
  invoke \<open>getAccessToken\<close> on a fresh instance before either answer arrives start two
  exchanges, both in flight together, and each gets the token of its own exchange, so
  the two callers hold different tokens.
\<close>

theorem single_flight_counterexample:
  "exchanges (snd (run (sample_env (\<lambda>n. Inr (sample_token (''token-'' @ [hex_digit n])))
                          (\<lambda>n. Inl (GatewayError None)) (Inl (GatewayError None)))
                     [Call 0, Call 1, Answer 0, Answer 1] (Map.empty, initial_world))) = 2
   \<and> in_flight (fst (run (sample_env (\<lambda>n. Inr (sample_token (''token-'' @ [hex_digit n])))
                          (\<lambda>n. Inl (GatewayError None)) (Inl (GatewayError None)))
                     [Call 0, Call 1] (Map.empty, initial_world))) [0, 1] = [0, 1]
   \<and> fst (run (sample_env (\<lambda>n. Inr (sample_token (''token-'' @ [hex_digit n])))
                          (\<lambda>n. Inl (GatewayError None)) (Inl (GatewayError None)))
                     [Call 0, Call 1, Answer 0, Answer 1] (Map.empty, initial_world)) 0
       = Some (Returned (Inr ''token-0''))
   \<and> fst (run (sample_env (\<lambda>n. Inr (sample_token (''token-'' @ [hex_digit n])))
                          (\<lambda>n. Inl (GatewayError None)) (Inl (GatewayError None)))
                     [Call 0, Call 1, Answer 0, Answer 1] (Map.empty, initial_world)) 1
       = Some (Returned (Inr ''token-1''))"
  by (simp add: token_defs sample_defs in_flight_def hex_digit_def)

text \<open>
  C7, amended. For every \<open>N\<close>, when \<open>N\<close> callers invoke \<open>getAccessToken\<close> while no valid
  token is cached and before any answer has arrived, each of them starts its own
  exchange: \<open>N\<close> exchanges in all, all \<open>N\<close> in flight together, and in whatever order
  the answers arrive each caller receives the outcome of its own exchange.
\<close>

theorem concurrent_callers_exchange_each:
  assumes "\<forall>j. \<not> cache_valid env (w\<lparr>clock_reads := clock_reads w + j\<rparr>)"
  shows "exchanges (snd (run env (map Call [0..<N] @ map Answer order) (Map.empty, w)))
           = exchanges w + N
       \<and> in_flight (fst (run env (map Call [0..<N]) (Map.empty, w))) [0..<N] = [0..<N]
       \<and> (\<forall>c<N. c \<in> set order \<longrightarrow>
             fst (run env (map Call [0..<N] @ map Answer order) (Map.empty, w)) c
               = Some (Returned (token_of_exchange env (exchanges w + c))))"
proof -
  obtain cs wN where st: "run env (map Call [0..<N]) (Map.empty, w) = (cs, wN)"
    by (cases "run env (map Call [0..<N]) (Map.empty, w)")
  have calls: "exchanges wN = exchanges w + N"
      "\<forall>c. cs c = (if c < N then Some (Waiting (exchanges w + c)) else None)"
    using run_calls [OF assms, of N] st by simp_all
  have flight: "in_flight cs [0..<N] = [0..<N]"
    using calls(2) by (simp add: in_flight_def)
  show ?thesis
    using run_answers [of env order cs wN] calls flight
    by (simp add: run_append st)
qed

theorem concurrent_callers_exchange_each_witness:
  "exchanges (snd (run (sample_env (\<lambda>n. Inr (sample_token (''token-'' @ [hex_digit n])))
                          (\<lambda>n. Inl (GatewayError None)) (Inl (GatewayError None)))
                     (map Call [0..<3] @ map Answer [2, 0, 1]) (Map.empty, initial_world))) = 3
   \<and> in_flight (fst (run (sample_env (\<lambda>n. Inr (sample_token (''token-'' @ [hex_digit n])))
                          (\<lambda>n. Inl (GatewayError None)) (Inl (GatewayError None)))
                     (map Call [0..<3]) (Map.empty, initial_world))) [0..<3] = [0..<3]
   \<and> fst (run (sample_env (\<lambda>n. Inr (sample_token (''token-'' @ [hex_digit n])))
                          (\<lambda>n. Inl (GatewayError None)) (Inl (GatewayError None)))
                     (map Call [0..<3] @ map Answer [2, 0, 1]) (Map.empty, initial_world)) 2
       = Some (Returned (Inr ''token-2''))"
proof -
  let ?E = "sample_env (\<lambda>n. Inr (sample_token (''token-'' @ [hex_digit n])))
              (\<lambda>n. Inl (GatewayError None)) (Inl (GatewayError None))"
  have h: "\<forall>j. \<not> cache_valid ?E (initial_world\<lparr>clock_reads := clock_reads initial_world + j\<rparr>)"
    by (simp add: cache_valid_def initial_world_def)
  have t: "token_of_exchange ?E (exchanges initial_world + 2) = Inr ''token-2''"
    by (simp add: token_of_exchange_def sample_defs hex_digit_def)
  have e: "exchanges initial_world = 0" by (simp add: initial_world_def)
  note all = concurrent_callers_exchange_each [OF h, of 3 "[2, 0, 1]"]
  have a: "exchanges (snd (run ?E (map Call [0..<3] @ map Answer [2, 0, 1])
             (Map.empty, initial_world))) = 3"
    using all e by simp
  have b: "in_flight (fst (run ?E (map Call [0..<3]) (Map.empty, initial_world))) [0..<3] = [0..<3]"
    using all by blast
  have c: "fst (run ?E (map Call [0..<3] @ map Answer [2, 0, 1]) (Map.empty, initial_world)) 2
             = Some (Returned (token_of_exchange ?E (exchanges initial_world + 2)))"
    by (rule all [THEN conjunct2, THEN conjunct2, rule_format, of 2]) simp_all
  show ?thesis
    using a b c unfolding t by blast
qed

text \<open>
  C8. Let the token acquisition succeed, the creation request pass the route's
  validation and the gateway answer the POST with a response \<open>r\<close> that has a non-empty
  \<open>id\<close> and a non-empty \<open>resource_token\<close>. Then \<open>createPayment\<close> returns a payment with
  the status of \<open>r\<close> and with the hosted-page link, a non-empty URL that embeds the id
  and the resource token of \<open>r\<close>. The route builds from it a record with that status
  and that link and puts it to the table: when the put is answered, the route answers
  201 with this record, which is then the record stored under \<open>(userId, id)\<close>, so the
  persisted record carries the link; when the put is rejected, the route answers 500
  and the table is as before.
\<close>

theorem createPayment_hosted_link:
  assumes tok: "\<forall>n u ps. \<exists>r. token_endpoint env n u ps = Inr r"
    and post: "\<forall>q. gateway_post env (length (posts w)) q = Inr r"
    and id: "truthy (tl_id r)"
    and rt: "resource_token r = Some rt" "truthy rt"
    and uid: "truthy uid"
    and valid: "truthy_number (req_amount pd)" "\<not> le_zero (req_amount pd)"
               "truthy (req_currency pd)" "truthy (req_reference pd)"
  shows "(\<exists>p. fst (createPayment env pd w) = Inr p \<and> tl_status p = tl_status r
            \<and> hosted_payments_page_url p = Some (hosted_payments_page (tl_id r) rt))
       \<and> hosted_payments_page (tl_id r) rt
           = ''https://payment.truelayer-sandbox.com/payments#payment_id='' @ tl_id r
             @ ''&resource_token='' @ rt
             @ ''&return_uri=http%3A%2F%2Flocalhost%3A5173%2Fdashboard''
       \<and> hosted_payments_page (tl_id r) rt \<noteq> []
       \<and> (\<exists>stored. status stored = tl_status r \<and> paymentId stored = tl_id r
            \<and> userId stored = uid \<and> amount stored = req_amount pd
            \<and> paymentLink stored = Some (hosted_payments_page (tl_id r) rt)
            \<and> trueLayerData stored
                = Some (r\<lparr>hosted_payments_page_url := Some (hosted_payments_page (tl_id r) rt)\<rparr>)
            \<and> (case table_put env stored of
                  None \<Rightarrow>
                    fst (post_payments env (Some uid) pd w) = Json 201 stored
                    \<and> payments_table (snd (post_payments env (Some uid) pd w)) (uid, tl_id r)
                        = Some stored
                | Some e \<Rightarrow>
                    fst (post_payments env (Some uid) pd w)
                      = JsonError 500 ''Server error''
                          (if truthy (message e) then message e
                           else ''Failed to create payment'')
                    \<and> payments_table (snd (post_payments env (Some uid) pd w))
                        = payments_table w))"
proof -
  let ?p = "r\<lparr>hosted_payments_page_url := Some (hosted_payments_page (tl_id r) rt)\<rparr>"
  let ?w1 = "snd (createPayment env pd w)"
  have c: "fst (createPayment env pd w) = Inr ?p"
    using createPayment_success [OF tok post, of pd] id rt by simp
  then have cp: "createPayment env pd w = (Inr ?p, ?w1)"
    by (simp add: prod_eq_iff)
  have first: "\<exists>p. fst (createPayment env pd w) = Inr p \<and> tl_status p = tl_status r
            \<and> hosted_payments_page_url p = Some (hosted_payments_page (tl_id r) rt)"
    using c by simp
  have link: "hosted_payments_page (tl_id r) rt
           = ''https://payment.truelayer-sandbox.com/payments#payment_id='' @ tl_id r
             @ ''&resource_token='' @ rt
             @ ''&return_uri=http%3A%2F%2Flocalhost%3A5173%2Fdashboard''"
    by (simp add: hosted_payments_page_def encoded_return_uri)
  have nonempty: "hosted_payments_page (tl_id r) rt \<noteq> []"
    by (simp add: hosted_payments_page_def)
  define payment where "payment =
          \<lparr>userId = uid, paymentId = tl_id ?p, amount = req_amount pd,
           currency = toUpperCase (req_currency pd), status = mapPaymentStatus ?p,
           reference = req_reference pd,
           createdAt = toISOString env (Date_now env (clock_reads ?w1)),
           updatedAt = toISOString env (Date_now env (Suc (clock_reads ?w1))),
           paymentLink = hosted_payments_page_url ?p, trueLayerData = Some ?p,
           statusMessage = None, canRetry = None\<rparr>"
  note route = post_payments_created [OF uid valid cp payment_def]
  have fields: "status payment = tl_status r" "paymentId payment = tl_id r"
      "userId payment = uid" "amount payment = req_amount pd"
      "paymentLink payment = Some (hosted_payments_page (tl_id r) rt)"
      "trueLayerData payment = Some ?p"
    by (simp_all add: payment_def mapPaymentStatus_def)
  have tbl: "payments_table ?w1 = payments_table w"
    by (rule createPayment_table)
  have put: "case table_put env payment of
                  None \<Rightarrow>
                    fst (post_payments env (Some uid) pd w) = Json 201 payment
                    \<and> payments_table (snd (post_payments env (Some uid) pd w)) (uid, tl_id r)
                        = Some payment
                | Some e \<Rightarrow>
                    fst (post_payments env (Some uid) pd w)
                      = JsonError 500 ''Server error''
                          (if truthy (message e) then message e
                           else ''Failed to create payment'')
                    \<and> payments_table (snd (post_payments env (Some uid) pd w))
                        = payments_table w"
  proof (cases "table_put env payment")
    case None
    then show ?thesis by (simp add: route)
  next
    case (Some e)
    then show ?thesis using tbl by (simp add: route)
  qed
  have route_part: "\<exists>stored. status stored = tl_status r \<and> paymentId stored = tl_id r
            \<and> userId stored = uid \<and> amount stored = req_amount pd
            \<and> paymentLink stored = Some (hosted_payments_page (tl_id r) rt)
            \<and> trueLayerData stored = Some ?p
            \<and> (case table_put env stored of
                  None \<Rightarrow>
                    fst (post_payments env (Some uid) pd w) = Json 201 stored
                    \<and> payments_table (snd (post_payments env (Some uid) pd w)) (uid, tl_id r)
                        = Some stored
                | Some e \<Rightarrow>
                    fst (post_payments env (Some uid) pd w)
                      = JsonError 500 ''Server error''
                          (if truthy (message e) then message e
                           else ''Failed to create payment'')
                    \<and> payments_table (snd (post_payments env (Some uid) pd w))
                        = payments_table w)"
    using fields put by (intro exI [of _ payment] conjI)
  show ?thesis using first link nonempty route_part by blast
qed

theorem createPayment_hosted_link_witness:
  "(\<exists>p. fst (createPayment (sample_env (\<lambda>n. Inr (sample_token ''token-A''))
          (\<lambda>n. Inl (GatewayError None)) (Inr (sample_response authorization_required)))
        sample_request initial_world) = Inr p \<and> tl_status p = authorization_required
       \<and> hosted_payments_page_url p = Some
           ''https://payment.truelayer-sandbox.com/payments#payment_id=pay-1&resource_token=abc&return_uri=http%3A%2F%2Flocalhost%3A5173%2Fdashboard'')
   \<and> (\<exists>stored. fst (post_payments (sample_env (\<lambda>n. Inr (sample_token ''token-A''))
          (\<lambda>n. Inl (GatewayError None)) (Inr (sample_response authorization_required)))
        (Some ''user-1'') sample_request initial_world) = Json 201 stored
       \<and> status stored = authorization_required
       \<and> paymentLink stored = Some
           ''https://payment.truelayer-sandbox.com/payments#payment_id=pay-1&resource_token=abc&return_uri=http%3A%2F%2Flocalhost%3A5173%2Fdashboard''
       \<and> payments_table (snd (post_payments (sample_env (\<lambda>n. Inr (sample_token ''token-A''))
          (\<lambda>n. Inl (GatewayError None)) (Inr (sample_response authorization_required)))
        (Some ''user-1'') sample_request initial_world)) (''user-1'', ''pay-1'') = Some stored)
   \<and> fst (post_payments (sample_env (\<lambda>n. Inr (sample_token ''token-A''))
          (\<lambda>n. Inl (GatewayError None)) (Inr (sample_response authorization_required)))
        (Some ''user-1'') (sample_request\<lparr>req_amount := Fin (10 ^ 126)\<rparr>) initial_world)
       = JsonError 500 ''Server error'' ''The item holds a number that cannot be marshalled''
   \<and> payments_table (snd (post_payments (sample_env (\<lambda>n. Inr (sample_token ''token-A''))
          (\<lambda>n. Inl (GatewayError None)) (Inr (sample_response authorization_required)))
        (Some ''user-1'') (sample_request\<lparr>req_amount := Fin (10 ^ 126)\<rparr>) initial_world))
       = payments_table initial_world"
proof -
  let ?E = "sample_env (\<lambda>n. Inr (sample_token ''token-A''))
          (\<lambda>n. Inl (GatewayError None)) (Inr (sample_response authorization_required))"
  let ?big = "sample_request\<lparr>req_amount := Fin (10 ^ 126)\<rparr>"
  let ?link = "''https://payment.truelayer-sandbox.com/payments#payment_id=pay-1&resource_token=abc&return_uri=http%3A%2F%2Flocalhost%3A5173%2Fdashboard''"
  have tok: "\<forall>n u ps. \<exists>r. token_endpoint ?E n u ps = Inr r"
    by (simp add: sample_env_def)
  have post: "\<forall>q. gateway_post ?E (length (posts initial_world)) q
                 = Inr (sample_response authorization_required)"
    by (simp add: sample_env_def)
  have r: "truthy (tl_id (sample_response authorization_required))"
      "resource_token (sample_response authorization_required) = Some ''abc''" "truthy ''abc''"
      "truthy ''user-1''"
    by (simp_all add: sample_response_def truthy_def)
  have v: "truthy_number (req_amount sample_request)" "\<not> le_zero (req_amount sample_request)"
      "truthy (req_currency sample_request)" "truthy (req_reference sample_request)"
    by (simp_all add: sample_request_def truthy_def)
  have vb: "truthy_number (req_amount ?big)" "\<not> le_zero (req_amount ?big)"
      "truthy (req_currency ?big)" "truthy (req_reference ?big)"
    by (simp_all add: sample_request_def truthy_def)
  have st: "tl_status (sample_response authorization_required) = authorization_required"
      "tl_id (sample_response authorization_required) = ''pay-1''"
    by (simp_all add: sample_response_def)
  have link: "hosted_payments_page ''pay-1'' ''abc'' = ?link"
    by (simp add: hosted_payments_page_def encoded_return_uri)
  have put: "table_put ?E = sample_put" by (simp add: sample_env_def)
  have minor: "amount_in_minor (sample_response authorization_required) = Fin 5000"
    by (simp add: sample_response_def)
  note small = createPayment_hosted_link [OF tok post r v, unfolded st link put]
  note large = createPayment_hosted_link [OF tok post r vb, unfolded st link put]
  from small have first: "\<exists>p. fst (createPayment ?E sample_request initial_world) = Inr p
       \<and> tl_status p = authorization_required \<and> hosted_payments_page_url p = Some ?link"
    by blast
  from small obtain stored where s: "status stored = authorization_required"
      "paymentLink stored = Some ?link" "amount stored = req_amount sample_request"
      "trueLayerData stored = Some ((sample_response authorization_required)
          \<lparr>hosted_payments_page_url := Some ?link\<rparr>)"
      "case sample_put stored of
         None \<Rightarrow>
           fst (post_payments ?E (Some ''user-1'') sample_request initial_world) = Json 201 stored
           \<and> payments_table (snd (post_payments ?E (Some ''user-1'') sample_request initial_world))
                (''user-1'', ''pay-1'') = Some stored
       | Some e \<Rightarrow>
           fst (post_payments ?E (Some ''user-1'') sample_request initial_world)
             = JsonError 500 ''Server error''
                 (if truthy (message e) then message e else ''Failed to create payment'')
           \<and> payments_table (snd (post_payments ?E (Some ''user-1'') sample_request initial_world))
               = payments_table initial_world"
    by blast
  have "sample_put stored = None"
    using s(3,4) minor by (simp add: sample_put_def sample_request_def)
  with s(5) have "fst (post_payments ?E (Some ''user-1'') sample_request initial_world)
                    = Json 201 stored
        \<and> payments_table (snd (post_payments ?E (Some ''user-1'') sample_request initial_world))
             (''user-1'', ''pay-1'') = Some stored"
    by simp
  with s(1,2) have second: "\<exists>stored.
        fst (post_payments ?E (Some ''user-1'') sample_request initial_world) = Json 201 stored
        \<and> status stored = authorization_required \<and> paymentLink stored = Some ?link
        \<and> payments_table (snd (post_payments ?E (Some ''user-1'') sample_request initial_world))
             (''user-1'', ''pay-1'') = Some stored"
    by blast
  from large obtain refused where b: "amount refused = req_amount ?big"
      "case sample_put refused of
         None \<Rightarrow>
           fst (post_payments ?E (Some ''user-1'') ?big initial_world) = Json 201 refused
           \<and> payments_table (snd (post_payments ?E (Some ''user-1'') ?big initial_world))
                (''user-1'', ''pay-1'') = Some refused
       | Some e \<Rightarrow>
           fst (post_payments ?E (Some ''user-1'') ?big initial_world)
             = JsonError 500 ''Server error''
                 (if truthy (message e) then message e else ''Failed to create payment'')
           \<and> payments_table (snd (post_payments ?E (Some ''user-1'') ?big initial_world))
               = payments_table initial_world"
    by blast
  have "sample_put refused = Some (Error ''The item holds a number that cannot be marshalled'')"
    using b(1) by (simp add: sample_put_def)
  with b(2) have third:
    "fst (post_payments ?E (Some ''user-1'') ?big initial_world)
       = JsonError 500 ''Server error'' ''The item holds a number that cannot be marshalled''
     \<and> payments_table (snd (post_payments ?E (Some ''user-1'') ?big initial_world))
         = payments_table initial_world"
    by (simp add: truthy_def)
  show ?thesis using first second third by blast
qed

text \<open>
  C10 at the amount 19.99. The request body \<^verbatim>\<open>{amount: 19.99, currency: "GBP", ...}\<close>
  passes the validation of the route; its amount is the binary64 value nearest to 19.99.
  The \<open>amount_in_minor\<close> of the request sent to the gateway is the binary64 product of
  this value and 100, which is \<open>8791694975696895 / 2\<^sup>4\<^sup>2\<close> (printed
  \<^verbatim>\<open>1998.9999999999998\<close>): it is not 100 times the amount, and it is not a whole number
  of minor units, lying strictly between 1998 and 1999. The stored record keeps the
  amount 19.99 as supplied. (For a whole amount \<open>n\<close> with \<open>100 n < 2\<^sup>5\<^sup>3\<close> the product is
  exact, by \<open>whole_amount_exact\<close>.)
\<close>

theorem amount_in_minor_not_exact:
  "round_double (1999 / 100) = Fin (5626684784446013 / 2 ^ 48)
   \<and> truthy_number (Fin (5626684784446013 / 2 ^ 48))
   \<and> \<not> le_zero (Fin (5626684784446013 / 2 ^ 48))
   \<and> map (\<lambda>rq. body_amount_in_minor (rq_body rq))
        (posts (snd (post_payments
           (sample_env (\<lambda>n. Inr (sample_token ''token-A'')) (\<lambda>n. Inl (GatewayError None))
              (Inr (sample_response authorization_required)))
           (Some ''user-1'')
           \<lparr>req_amount = Fin (5626684784446013 / 2 ^ 48), req_currency = ''GBP'',
            req_reference = ''Invoice 1''\<rparr>
           initial_world)))
       = [Fin (8791694975696895 / 2 ^ 42)]
   \<and> map_option amount
        (payments_table (snd (post_payments
           (sample_env (\<lambda>n. Inr (sample_token ''token-A'')) (\<lambda>n. Inl (GatewayError None))
              (Inr (sample_response authorization_required)))
           (Some ''user-1'')
           \<lparr>req_amount = Fin (5626684784446013 / 2 ^ 48), req_currency = ''GBP'',
            req_reference = ''Invoice 1''\<rparr>
           initial_world)) (''user-1'', ''pay-1''))
       = Some (Fin (5626684784446013 / 2 ^ 48))
   \<and> (8791694975696895 / 2 ^ 42 :: rat) \<noteq> 100 * (5626684784446013 / 2 ^ 48)
   \<and> (8791694975696895 / 2 ^ 42 :: rat) < 1999
   \<and> (1998 :: rat) < 8791694975696895 / 2 ^ 42"
proof -
  let ?E = "sample_env (\<lambda>n. Inr (sample_token ''token-A'')) (\<lambda>n. Inl (GatewayError None))
              (Inr (sample_response authorization_required))"
  let ?rq = "\<lparr>req_amount = Fin (5626684784446013 / 2 ^ 48), req_currency = ''GBP'',
            req_reference = ''Invoice 1''\<rparr>"
  have cp: "createPayment ?E ?rq initial_world
     = (Inr ((sample_response authorization_required)\<lparr>hosted_payments_page_url :=
               Some (hosted_payments_page ''pay-1'' ''abc'')\<rparr>),
        snd (createPayment ?E ?rq initial_world))"
    by (simp add: createPayment_unfold axios_post_def token_defs Let_def sample_defs truthy_def
          prod_eq_iff)
  have body: "body_amount_in_minor (build_requestBody ?rq u) = Fin (8791694975696895 / 2 ^ 42)"
    for u
    unfolding build_requestBody_def using times_19_99 by simp
  have sent: "map (\<lambda>rq. body_amount_in_minor (rq_body rq))
                (posts (snd (createPayment ?E ?rq initial_world)))
               = [Fin (8791694975696895 / 2 ^ 42)]"
    using body
    by (simp add: createPayment_unfold axios_post_def token_defs Let_def sample_defs)
  have v: "truthy ''user-1''" "truthy_number (req_amount ?rq)" "\<not> le_zero (req_amount ?rq)"
      "truthy (req_currency ?rq)" "truthy (req_reference ?rq)"
    by (simp_all add: truthy_def)
  define payment where "payment =
      \<lparr>userId = ''user-1'',
       paymentId = tl_id ((sample_response authorization_required)\<lparr>hosted_payments_page_url :=
               Some (hosted_payments_page ''pay-1'' ''abc'')\<rparr>),
       amount = req_amount ?rq,
       currency = toUpperCase (req_currency ?rq),
       status = mapPaymentStatus ((sample_response authorization_required)\<lparr>hosted_payments_page_url :=
               Some (hosted_payments_page ''pay-1'' ''abc'')\<rparr>),
       reference = req_reference ?rq,
       createdAt = toISOString ?E (Date_now ?E (clock_reads (snd (createPayment ?E ?rq initial_world)))),
       updatedAt = toISOString ?E (Date_now ?E
                     (Suc (clock_reads (snd (createPayment ?E ?rq initial_world))))),
       paymentLink = hosted_payments_page_url ((sample_response authorization_required)
               \<lparr>hosted_payments_page_url := Some (hosted_payments_page ''pay-1'' ''abc'')\<rparr>),
       trueLayerData = Some ((sample_response authorization_required)\<lparr>hosted_payments_page_url :=
               Some (hosted_payments_page ''pay-1'' ''abc'')\<rparr>),
       statusMessage = None, canRetry = None\<rparr>"
  have accepted: "table_put ?E payment = None"
    by (simp add: payment_def sample_env_def sample_put_def sample_response_def)
  note route = post_payments_created [OF v cp payment_def, unfolded accepted option.case]
  have posted: "map (\<lambda>rq. body_amount_in_minor (rq_body rq))
        (posts (snd (post_payments ?E (Some ''user-1'') ?rq initial_world)))
       = [Fin (8791694975696895 / 2 ^ 42)]"
    unfolding route using sent by simp
  have stored: "map_option amount
        (payments_table (snd (post_payments ?E (Some ''user-1'') ?rq initial_world))
           (''user-1'', ''pay-1''))
       = Some (Fin (5626684784446013 / 2 ^ 48))"
    unfolding route by (simp add: payment_def sample_response_def)
  have arith: "(8791694975696895 / 2 ^ 42 :: rat) \<noteq> 100 * (5626684784446013 / 2 ^ 48)"
      "(8791694975696895 / 2 ^ 42 :: rat) < 1999" "(1998 :: rat) < 8791694975696895 / 2 ^ 42"
    by simp_all
  show ?thesis
    using double_of_19_99 posted stored arith by simp
qed

theorem amount_in_minor_not_exact_witness:
  "length (posts (snd (post_payments
           (sample_env (\<lambda>n. Inr (sample_token ''token-A'')) (\<lambda>n. Inl (GatewayError None))
              (Inr (sample_response authorization_required)))
           (Some ''user-1'')
           \<lparr>req_amount = Fin (5626684784446013 / 2 ^ 48), req_currency = ''GBP'',
            req_reference = ''Invoice 1''\<rparr>
           initial_world))) = 1"
proof -
  let ?sent = "posts (snd (post_payments
           (sample_env (\<lambda>n. Inr (sample_token ''token-A'')) (\<lambda>n. Inl (GatewayError None))
              (Inr (sample_response authorization_required)))
           (Some ''user-1'')
           \<lparr>req_amount = Fin (5626684784446013 / 2 ^ 48), req_currency = ''GBP'',
            req_reference = ''Invoice 1''\<rparr>
           initial_world))"
  from amount_in_minor_not_exact
  have "map (\<lambda>rq. body_amount_in_minor (rq_body rq)) ?sent = [Fin (8791694975696895 / 2 ^ 42)]"
    by blast
  then have "length (map (\<lambda>rq. body_amount_in_minor (rq_body rq)) ?sent)
               = length [Fin (8791694975696895 / 2 ^ 42)]"
    by (rule arg_cong)
  then show ?thesis by simp
qed

end
